theory Spec2Isabelle
  imports Complex_Main "HOL-Library.Sublist" "HOL-Library.Word"
begin

section \<open>Data model of the chat route (src/app/api/chat/route.ts)\<close>

text \<open>
  JavaScript numbers that reach the route come out of JSON, so they are finite doubles,
  and every finite double is a rational number. The literal \<^verbatim>\<open>0.7\<close> denotes the
  double nearest to 7/10 and no double lies between the two, so \<^verbatim>\<open>d > 0.7\<close> holds for
  a double \<open>d\<close> exactly when the value of \<open>d\<close> exceeds 7/10. A score is therefore a
  \<^typ>\<open>rat\<close> and the threshold the rational 7/10.
\<close>

text \<open>
  A JavaScript string is a sequence of 16-bit code units. \<open>js\<close> is the string a literal
  of the source denotes: the literals of the source are ASCII, one code unit per
  character.
\<close>

type_synonym code_unit = "16 word"

type_synonym js_string = "code_unit list"

definition js :: "string \<Rightarrow> js_string" where
  "js s = map of_char s"

datatype role = User | Assistant

record Message =
  role :: role
  content :: js_string

text \<open>
  \<^verbatim>\<open>interface Source { work_title: string; chapter: string | null; text: string; score: number }\<close>
\<close>

record Source =
  work_title :: js_string
  "chapter" :: "js_string option"
  "text" :: js_string
  score :: rat

section \<open>Relevance filter\<close>

text \<open>
  The filter is the expression of POST, line 100:
  \<^verbatim>\<open>allSources.filter(s => s.score > 0.7).slice(0, 3)\<close>
\<close>

definition relevance_filter :: "Source list \<Rightarrow> Source list" where
  "relevance_filter allSources = take 3 (filter (\<lambda>s. score s > 0.7) allSources)"

text \<open>Six search results carrying the scores of the spec's Scenario A.\<close>

definition scenario_A_results :: "Source list" where
  "scenario_A_results =
    [\<lparr>work_title = js ''Aion'', chapter = Some (js ''The Shadow''), text = js ''a'', score = 0.9\<rparr>,
     \<lparr>work_title = js ''Psychological Types'', chapter = None, text = js ''b'', score = 0.82\<rparr>,
     \<lparr>work_title = js ''Aion'', chapter = Some (js ''The Self''), text = js ''c'', score = 0.75\<rparr>,
     \<lparr>work_title = js ''Symbols of Transformation'', chapter = None, text = js ''d'', score = 0.71\<rparr>,
     \<lparr>work_title = js ''Letters'', chapter = None, text = js ''e'', score = 0.6\<rparr>,
     \<lparr>work_title = js ''Dream Analysis'', chapter = Some (js ''Lecture 3''), text = js ''f'', score = 0.4\<rparr>]"

section \<open>Citation formatting\<close>

text \<open>
  A template literal renders the number \<open>i + 1\<close> in decimal; \<open>i\<close> is an array index,
  so the number is a natural number.
\<close>

definition digit_char :: "nat \<Rightarrow> code_unit" where
  "digit_char d = js ''0123456789'' ! d"

function show_nat :: "nat \<Rightarrow> js_string" where
  "show_nat n = (if n < 10 then [digit_char n] else show_nat (n div 10) @ [digit_char (n mod 10)])"
  by pat_completeness auto
termination
  by (relation "measure (\<lambda>n. n)") auto

declare show_nat.simps [simp del]

text \<open>\<^verbatim>\<open>Array.prototype.join\<close>: the empty array joins to the empty string.\<close>

fun js_join :: "js_string \<Rightarrow> js_string list \<Rightarrow> js_string" where
  "js_join sep [] = []"
| "js_join sep [x] = x"
| "js_join sep (x # y # ys) = x @ sep @ js_join sep (y # ys)"

text \<open>
  \<^verbatim>\<open>source.chapter ? a : b\<close> takes the first branch when the chapter is neither null nor
  the empty string.
\<close>

definition chapter_truthy :: "Source \<Rightarrow> bool" where
  "chapter_truthy source = (case chapter source of None \<Rightarrow> False | Some c \<Rightarrow> c \<noteq> [])"

definition chapter_string :: "Source \<Rightarrow> js_string" where
  "chapter_string source = (case chapter source of None \<Rightarrow> js ''null'' | Some c \<Rightarrow> c)"

text \<open>The callback of \<^verbatim>\<open>sources.map((source, i) => ...)\<close> in formatSourcesForPrompt.\<close>

definition prompt_entry :: "nat \<Rightarrow> Source \<Rightarrow> js_string" where
  "prompt_entry i source =
    (let citation =
       (if chapter_truthy source
        then js ''['' @ show_nat (i + 1) @ js ''] '' @ work_title source @ js '', '' @ chapter_string source
        else js ''['' @ show_nat (i + 1) @ js ''] '' @ work_title source)
     in citation @ js ''\<newline>'' @ text source)"

definition prompt_entries :: "Source list \<Rightarrow> js_string list" where
  "prompt_entries sources = map (\<lambda>(i, source). prompt_entry i source) (enumerate 0 sources)"

definition formatSourcesForPrompt :: "Source list \<Rightarrow> js_string" where
  "formatSourcesForPrompt sources =
     js_join (js ''\<newline>\<newline>---\<newline>\<newline>'') (prompt_entries sources)"

text \<open>The callback of \<^verbatim>\<open>sources.map((source, i) => ...)\<close> in formatSourcesForResponse.\<close>

definition response_entry :: "nat \<Rightarrow> Source \<Rightarrow> js_string" where
  "response_entry i source =
    (let chapter = (if chapter_truthy source then js '', '' @ chapter_string source else [])
     in js ''['' @ show_nat (i + 1) @ js ''] '' @ work_title source @ chapter)"

definition response_entries :: "Source list \<Rightarrow> js_string list" where
  "response_entries sources = map (\<lambda>(i, source). response_entry i source) (enumerate 0 sources)"

definition formatSourcesForResponse :: "Source list \<Rightarrow> js_string" where
  "formatSourcesForResponse sources = js_join (js ''\<newline>'') (response_entries sources)"

section \<open>External services\<close>

text \<open>
  Everything thrown inside POST is caught by one \<^verbatim>\<open>catch\<close>; an exception is a value.
  \<open>Error\<close> is \<^verbatim>\<open>new Error(msg)\<close>, \<open>TypeError\<close> a property read on undefined, and
  \<open>ServiceError\<close> whatever a client library, \<^verbatim>\<open>fetch\<close> or a JSON parser throws.
\<close>

datatype exn = Error js_string | TypeError | ServiceError js_string

type_synonym vector = "rat list"

text \<open>The JSON body that generateQueryEmbedding posts to the embedding service.\<close>

record embed_request =
  embed_model :: js_string
  inputs :: "js_string list"
  input_type :: js_string
  truncate_mode :: js_string

text \<open>
  The response of \<^verbatim>\<open>fetch\<close>: \<open>json\<close> is the outcome of \<^verbatim>\<open>response.json()\<close> followed by
  \<^verbatim>\<open>data.data\<close>, the list of the \<^verbatim>\<open>values\<close> of its items; \<open>Inl\<close> when the body is not
  JSON with a \<^verbatim>\<open>data\<close> array.
\<close>

record embed_response =
  ok :: bool
  status :: nat
  json :: "exn + vector list"

record query_request =
  vector :: vector
  topK :: nat
  includeMetadata :: bool

text \<open>
  A match of the index, read through the casts of queryPinecone
  (\<^verbatim>\<open>match.metadata?.work_title as string\<close>): each metadata field is a string or absent,
  the score a number or absent.
\<close>

record match_metadata =
  md_work_title :: "js_string option"
  md_chapter :: "js_string option"
  md_text :: "js_string option"

record pinecone_match =
  metadata :: "match_metadata option"
  match_score :: "rat option"

record query_response =
  matches :: "pinecone_match list option"

record generation_request =
  model :: js_string
  max_tokens :: nat
  system :: js_string
  messages :: "Message list"

datatype content_block = TextBlock js_string | OtherBlock

text \<open>
  The three services and the environment variable \<^verbatim>\<open>PINECONE_INDEX\<close>. A service answers a
  request with a value or throws.
\<close>

record services =
  embed_api :: "embed_request \<Rightarrow> exn + embed_response"
  PINECONE_INDEX :: "js_string option"
  index_query :: "js_string \<Rightarrow> query_request \<Rightarrow> exn + query_response"
  messages_create :: "generation_request \<Rightarrow> exn + content_block list"

text \<open>The external calls a request makes, in the order it makes them.\<close>

datatype call =
    EmbedCall embed_request
  | QueryCall js_string query_request
  | GenerateCall generation_request

section \<open>The route\<close>

definition embed_request_of :: "js_string \<Rightarrow> embed_request" where
  "embed_request_of query =
     \<lparr>embed_model = js ''multilingual-e5-large'', inputs = [js ''query: '' @ query],
      input_type = js ''query'', truncate_mode = js ''END''\<rparr>"

definition generateQueryEmbedding :: "services \<Rightarrow> js_string \<Rightarrow> call list \<times> (exn + vector)" where
  "generateQueryEmbedding sv query =
     ([EmbedCall (embed_request_of query)],
      case embed_api sv (embed_request_of query) of
        Inl e \<Rightarrow> Inl e
      | Inr response \<Rightarrow>
          if \<not> ok response
          then Inl (Error (js ''Embedding API error: '' @ show_nat (status response)))
          else (case json response of
                  Inl e \<Rightarrow> Inl e
                | Inr [] \<Rightarrow> Inl TypeError
                | Inr (d # _) \<Rightarrow> Inr d))"

text \<open>\<^verbatim>\<open>a || b\<close> on a string that may be absent: absent and empty are falsy.\<close>

definition string_or :: "js_string option \<Rightarrow> js_string \<Rightarrow> js_string" where
  "string_or a b = (case a of None \<Rightarrow> b | Some s \<Rightarrow> if s = [] then b else s)"

definition string_or_null :: "js_string option \<Rightarrow> js_string option" where
  "string_or_null a = (case a of None \<Rightarrow> None | Some s \<Rightarrow> if s = [] then None else Some s)"

definition number_or :: "rat option \<Rightarrow> rat \<Rightarrow> rat" where
  "number_or a b = (case a of None \<Rightarrow> b | Some r \<Rightarrow> if r = 0 then b else r)"

text \<open>\<^verbatim>\<open>match.metadata?.f\<close>\<close>

definition metadata_field :: "(match_metadata \<Rightarrow> js_string option) \<Rightarrow> pinecone_match \<Rightarrow> js_string option" where
  "metadata_field f m = (case metadata m of None \<Rightarrow> None | Some md \<Rightarrow> f md)"

text \<open>The callback of \<^verbatim>\<open>results.matches?.map((match) => ...)\<close> in queryPinecone.\<close>

definition match_to_source :: "pinecone_match \<Rightarrow> Source" where
  "match_to_source m =
     \<lparr>work_title = string_or (metadata_field md_work_title m) (js ''Unknown''),
      chapter = string_or_null (metadata_field md_chapter m),
      text = string_or (metadata_field md_text m) [],
      score = number_or (match_score m) 0\<rparr>"

text \<open>\<^verbatim>\<open>process.env.PINECONE_INDEX || "jung-works"\<close>\<close>

definition index_name :: "services \<Rightarrow> js_string" where
  "index_name sv = string_or (PINECONE_INDEX sv) (js ''jung-works'')"

definition query_request_of :: "vector \<Rightarrow> nat \<Rightarrow> query_request" where
  "query_request_of embedding k = \<lparr>vector = embedding, topK = k, includeMetadata = True\<rparr>"

text \<open>\<^verbatim>\<open>results.matches?.map(...) || []\<close>\<close>

definition matched_sources :: "query_response \<Rightarrow> Source list" where
  "matched_sources results =
     (case matches results of None \<Rightarrow> [] | Some ms \<Rightarrow> map match_to_source ms)"

text \<open>\<^verbatim>\<open>queryPinecone(query, topK = 5)\<close>: \<open>None\<close> is the omitted argument.\<close>

definition queryPinecone :: "services \<Rightarrow> js_string \<Rightarrow> nat option \<Rightarrow> call list \<times> (exn + Source list)" where
  "queryPinecone sv query topK_arg =
     (let k = (case topK_arg of None \<Rightarrow> 5 | Some n \<Rightarrow> n) in
      case generateQueryEmbedding sv query of
        (calls, Inl e) \<Rightarrow> (calls, Inl e)
      | (calls, Inr embedding) \<Rightarrow>
          (calls @ [QueryCall (index_name sv) (query_request_of embedding k)],
           case index_query sv (index_name sv) (query_request_of embedding k) of
             Inl e \<Rightarrow> Inl e
           | Inr results \<Rightarrow> Inr (matched_sources results)))"

text \<open>
  The body of a request, \<^verbatim>\<open>{ messages, query }\<close>, as \<^verbatim>\<open>request.json()\<close> returns it.
  Nothing checks it: \<open>req_messages\<close> is \<open>None\<close> when the body has no array of messages
  under \<^verbatim>\<open>messages\<close> (the key is absent, or its value is not an array of objects), and
  then \<^verbatim>\<open>messages.map(...)\<close> throws.
\<close>

record request_body =
  req_messages :: "Message list option"
  req_query :: js_string

definition rules_text :: js_string where
  "rules_text =
     js ''You're a knowledgeable guide to Jung's psychology. Be concise and conversational.\<newline>''
     @ js ''\<newline>''
     @ js ''Rules:\<newline>''
     @ js ''- Keep responses to 2-4 sentences max\<newline>''
     @ js ''- Be direct, not academic\<newline>''
     @ js ''- Only cite [1], [2] etc. when directly quoting Jung's words\<newline>''
     @ js ''- Don't cite for general concepts - only for specific quotes\<newline>''
     @ js ''- If asked to elaborate, you can go deeper\<newline>''
     @ js ''\<newline>''"

definition no_sources_text :: js_string where
  "no_sources_text = js ''No highly relevant sources found - answer from general knowledge of Jung.''"

definition systemPrompt :: "Source list \<Rightarrow> js_string" where
  "systemPrompt sources =
     rules_text @
     (if length sources > 0
      then js ''Sources:\<newline>'' @ formatSourcesForPrompt sources
      else no_sources_text)"

definition claudeMessages :: "Message list \<Rightarrow> js_string \<Rightarrow> Message list" where
  "claudeMessages msgs query =
     map (\<lambda>msg. \<lparr>role = role msg, content = content msg\<rparr>) msgs
     @ [\<lparr>role = User, content = query\<rparr>]"

definition generation_request_of :: "Message list \<Rightarrow> js_string \<Rightarrow> Source list \<Rightarrow> generation_request" where
  "generation_request_of msgs query srcs =
     \<lparr>model = js ''claude-sonnet-4-20250514'', max_tokens = 550,
      system = systemPrompt srcs, messages = claudeMessages msgs query\<rparr>"

text \<open>The JSON object of a successful response.\<close>

record chat_body =
  message :: js_string
  sources :: js_string
  rawSources :: "Source list"

text \<open>
  The \<^verbatim>\<open>try\<close> block of POST. Its argument is the outcome of \<^verbatim>\<open>request.json()\<close>
  and of the destructuring of its result; it returns the calls made and either the
  exception thrown or the body of the response. The system prompt is built before
  \<^verbatim>\<open>messages.map(...)\<close> is evaluated, and the generation service is called after it.
\<close>

definition POST_try :: "services \<Rightarrow> exn + request_body \<Rightarrow> call list \<times> (exn + chat_body)" where
  "POST_try sv request_json =
     (case request_json of
        Inl e \<Rightarrow> ([], Inl e)
      | Inr body \<Rightarrow>
          (case queryPinecone sv (req_query body) (Some 6) of
             (calls, Inl e) \<Rightarrow> (calls, Inl e)
           | (calls, Inr allSources) \<Rightarrow>
               (let srcs = relevance_filter allSources in
                case req_messages body of
                  None \<Rightarrow> (calls, Inl TypeError)
                | Some msgs \<Rightarrow>
                    (let greq = generation_request_of msgs (req_query body) srcs
                     in (calls @ [GenerateCall greq],
                         case messages_create sv greq of
                           Inl e \<Rightarrow> Inl e
                         | Inr [] \<Rightarrow> Inl TypeError
                         | Inr (block # _) \<Rightarrow>
                             (let assistantMessage =
                                    (case block of TextBlock t \<Rightarrow> t | OtherBlock \<Rightarrow> []);
                                  sourcesText = formatSourcesForResponse srcs
                              in Inr \<lparr>message = assistantMessage, sources = sourcesText,
                                      rawSources = srcs\<rparr>))))))"

datatype response = JsonOk chat_body | JsonError js_string nat

text \<open>
  POST: the \<^verbatim>\<open>catch\<close> turns every exception into
  \<^verbatim>\<open>{ error: "Failed to process request" }\<close> with status 500.
\<close>

definition POST :: "services \<Rightarrow> exn + request_body \<Rightarrow> call list \<times> response" where
  "POST sv request_json =
     (case POST_try sv request_json of
        (calls, Inl e) \<Rightarrow> (calls, JsonError (js ''Failed to process request'') 500)
      | (calls, Inr body) \<Rightarrow> (calls, JsonOk body))"

section \<open>Reading the calls of a request\<close>

fun embed_calls :: "call list \<Rightarrow> embed_request list" where
  "embed_calls [] = []"
| "embed_calls (EmbedCall r # cs) = r # embed_calls cs"
| "embed_calls (c # cs) = embed_calls cs"

fun query_calls :: "call list \<Rightarrow> (js_string \<times> query_request) list" where
  "query_calls [] = []"
| "query_calls (QueryCall index r # cs) = (index, r) # query_calls cs"
| "query_calls (c # cs) = query_calls cs"

fun generate_calls :: "call list \<Rightarrow> generation_request list" where
  "generate_calls [] = []"
| "generate_calls (GenerateCall r # cs) = r # generate_calls cs"
| "generate_calls (c # cs) = generate_calls cs"

text \<open>
  The three ways an external step of a request fails. The embedding: the \<^verbatim>\<open>fetch\<close>
  throws, or the response is not ok, or its body does not hold an embedding. The search:
  the embedding is there and the query of the index throws. The generation: the sources
  and the messages of the body are there and the generation service throws.
\<close>

definition embedding_fails :: "services \<Rightarrow> request_body \<Rightarrow> bool" where
  "embedding_fails sv body =
     (case embed_api sv (embed_request_of (req_query body)) of
        Inl e \<Rightarrow> True
      | Inr response \<Rightarrow>
          \<not> ok response \<or> (case json response of Inl e \<Rightarrow> True | Inr data \<Rightarrow> data = []))"

definition search_fails :: "services \<Rightarrow> request_body \<Rightarrow> bool" where
  "search_fails sv body =
     (case snd (generateQueryEmbedding sv (req_query body)) of
        Inl e \<Rightarrow> False
      | Inr embedding \<Rightarrow> isl (index_query sv (index_name sv) (query_request_of embedding 6)))"

definition generation_fails :: "services \<Rightarrow> request_body \<Rightarrow> bool" where
  "generation_fails sv body =
     (case snd (queryPinecone sv (req_query body) (Some 6)) of
        Inl e \<Rightarrow> False
      | Inr allSources \<Rightarrow>
          (case req_messages body of
             None \<Rightarrow> False
           | Some msgs \<Rightarrow>
               isl (messages_create sv
                      (generation_request_of msgs (req_query body) (relevance_filter allSources)))))"

text \<open>Services for the examples: every call succeeds; the index returns three matches.\<close>

definition example_matches :: "pinecone_match list" where
  "example_matches =
     [\<lparr>metadata = Some \<lparr>md_work_title = Some (js ''Aion''), md_chapter = Some (js ''The Shadow''),
                        md_text = Some (js ''a'')\<rparr>, match_score = Some 0.9\<rparr>,
      \<lparr>metadata = Some \<lparr>md_work_title = None, md_chapter = Some [], md_text = None\<rparr>,
       match_score = Some 0.8\<rparr>,
      \<lparr>metadata = None, match_score = None\<rparr>]"

definition example_services :: services where
  "example_services =
     \<lparr>embed_api = (\<lambda>r. Inr \<lparr>ok = True, status = 200, json = Inr [[1, 0]]\<rparr>),
      PINECONE_INDEX = None,
      index_query = (\<lambda>index r. Inr \<lparr>matches = Some example_matches\<rparr>),
      messages_create = (\<lambda>r. Inr [TextBlock (js ''The shadow is the unlived side.'')])\<rparr>"

definition example_body :: request_body where
  "example_body = \<lparr>req_messages = Some [], req_query = js ''What is the shadow?''\<rparr>"

text \<open>The same query in a body without \<^verbatim>\<open>messages\<close>.\<close>

definition body_without_messages :: request_body where
  "body_without_messages = \<lparr>req_messages = None, req_query = js ''What is the shadow?''\<rparr>"

definition blank_body :: request_body where
  "blank_body = \<lparr>req_messages = Some [], req_query = js ''  ''\<rparr>"

text \<open>The embedding service answers 503.\<close>

definition embedding_down :: services where
  "embedding_down =
     example_services\<lparr>embed_api := (\<lambda>r. Inr \<lparr>ok = False, status = 503, json = Inl (ServiceError [])\<rparr>)\<rparr>"

text \<open>The generation service throws.\<close>

definition generation_down :: services where
  "generation_down = example_services\<lparr>messages_create := (\<lambda>r. Inl (ServiceError (js ''overloaded'')))\<rparr>"

text \<open>The index returns six matches, none scored above 0.7.\<close>

definition low_matches :: "pinecone_match list" where
  "low_matches =
     map (\<lambda>r. \<lparr>metadata = Some \<lparr>md_work_title = Some (js ''Letters''), md_chapter = None,
                                 md_text = Some (js ''t'')\<rparr>, match_score = Some r\<rparr>)
       [0.7, 0.69, 0.5, 0.4, 0.2, 0.1]"

definition low_scores :: services where
  "low_scores = example_services\<lparr>index_query := (\<lambda>index r. Inr \<lparr>matches = Some low_matches\<rparr>)\<rparr>"

section \<open>The client (src/app/page.tsx)\<close>

text \<open>
  \<^verbatim>\<open>String.prototype.trim\<close> strips the white space and the line terminators of
  ECMAScript from both ends: U+0009 to U+000D, U+0020, U+00A0, U+1680, U+2000 to U+200A,
  U+2028, U+2029, U+202F, U+205F, U+3000 and U+FEFF, each a single code unit.
\<close>

definition is_js_whitespace :: "code_unit \<Rightarrow> bool" where
  "is_js_whitespace c =
     (c \<in> set [0x0009, 0x000A, 0x000B, 0x000C, 0x000D, 0x0020, 0x00A0, 0x1680,
                0x2028, 0x2029, 0x202F, 0x205F, 0x3000, 0xFEFF]
      \<or> (0x2000 \<le> c \<and> c \<le> 0x200A))"

definition trim :: "js_string \<Rightarrow> js_string" where
  "trim s = rev (dropWhile is_js_whitespace (rev (dropWhile is_js_whitespace s)))"

record Exploration =
  ex_id :: js_string
  ex_query :: js_string
  ex_response :: js_string
  ex_sources :: "Source list"
  relatedConcepts :: "js_string list"

text \<open>The state of the component Home that handleExplore reads and sets.\<close>

record ui_state =
  explorations :: "Exploration list"
  input :: js_string
  isLoading :: bool
  expandedId :: "js_string option"

text \<open>
  \<^verbatim>\<open>Date.now()\<close> and the result of extractRelatedConcepts, which shuffles with
  \<^verbatim>\<open>Math.random\<close>, are parameters.
\<close>

record client_env =
  now :: nat
  extractRelatedConcepts :: "js_string \<Rightarrow> js_string list"

text \<open>
  handleExplore. The \<^verbatim>\<open>fetch\<close> of \<^verbatim>\<open>/api/chat\<close> runs POST on the body
  \<^verbatim>\<open>{ messages: [], query }\<close>; a response that is not ok is thrown, logged by the
  \<^verbatim>\<open>catch\<close>, and \<^verbatim>\<open>finally\<close> resets isLoading. In a response that is ok
  \<^verbatim>\<open>data.rawSources\<close> is an array, which is truthy, so \<^verbatim>\<open>data.rawSources || []\<close>
  is that array.
\<close>

definition handleExplore :: "services \<Rightarrow> client_env \<Rightarrow> ui_state \<Rightarrow> js_string \<Rightarrow> call list \<times> ui_state" where
  "handleExplore sv cl st query =
     (if trim query = [] \<or> isLoading st then ([], st)
      else
        (let st1 = st\<lparr>input := [], isLoading := True\<rparr> in
         case POST sv (Inr \<lparr>req_messages = Some [], req_query = query\<rparr>) of
           (calls, JsonError _ _) \<Rightarrow> (calls, st1\<lparr>isLoading := False\<rparr>)
         | (calls, JsonOk data) \<Rightarrow>
             (let newExploration =
                    \<lparr>ex_id = show_nat (now cl), ex_query = query, ex_response = message data,
                     ex_sources = rawSources data,
                     relatedConcepts = extractRelatedConcepts cl (message data)\<rparr>
              in (calls,
                  st1\<lparr>explorations := newExploration # explorations st1,
                      expandedId := Some (ex_id newExploration),
                      isLoading := False\<rparr>))))"

section \<open>The metadata casts at run time\<close>

text \<open>
  \<^verbatim>\<open>as string\<close> is erased by the compiler. At run time a metadata value of the index is a
  string, a number, a boolean or a list of strings, and a key may be absent; the result of
  \<^verbatim>\<open>v || d\<close> is \<open>v\<close> when \<open>v\<close> is truthy and \<open>d\<close> otherwise.
\<close>

datatype js_value =
    JUndefined
  | JNull
  | JBool bool
  | JNum rat
  | JStr js_string
  | JStrList "js_string list"

fun truthy :: "js_value \<Rightarrow> bool" where
  "truthy JUndefined = False"
| "truthy JNull = False"
| "truthy (JBool b) = b"
| "truthy (JNum r) = (r \<noteq> 0)"
| "truthy (JStr s) = (s \<noteq> [])"
| "truthy (JStrList xs) = True"

definition js_or :: "js_value \<Rightarrow> js_value \<Rightarrow> js_value" where
  "js_or a b = (if truthy a then a else b)"

fun is_string :: "js_value \<Rightarrow> bool" where
  "is_string (JStr s) = True"
| "is_string v = False"

fun is_number :: "js_value \<Rightarrow> bool" where
  "is_number (JNum r) = True"
| "is_number v = False"

text \<open>A match as the index returns it: \<open>raw_metadata\<close> maps a key to its value.\<close>

record raw_match =
  raw_metadata :: "(string \<Rightarrow> js_value) option"
  raw_score :: "rat option"

record raw_source =
  raw_work_title :: js_value
  raw_chapter :: js_value
  raw_text :: js_value
  raw_score_value :: js_value

text \<open>\<^verbatim>\<open>match.metadata?.key\<close>\<close>

definition raw_field :: "raw_match \<Rightarrow> string \<Rightarrow> js_value" where
  "raw_field m key = (case raw_metadata m of None \<Rightarrow> JUndefined | Some md \<Rightarrow> md key)"

definition raw_number :: "rat option \<Rightarrow> js_value" where
  "raw_number a = (case a of None \<Rightarrow> JUndefined | Some r \<Rightarrow> JNum r)"

text \<open>The callback of \<^verbatim>\<open>results.matches?.map((match) => ...)\<close> with the casts erased.\<close>

definition match_to_source_erased :: "raw_match \<Rightarrow> raw_source" where
  "match_to_source_erased m =
     \<lparr>raw_work_title = js_or (raw_field m ''work_title'') (JStr (js ''Unknown'')),
      raw_chapter = js_or (raw_field m ''chapter'') JNull,
      raw_text = js_or (raw_field m ''text'') (JStr []),
      raw_score_value = js_or (raw_number (raw_score m)) (JNum 0)\<rparr>"

text \<open>The run-time values of a typed match and of a typed source.\<close>

definition raw_string :: "js_string option \<Rightarrow> js_value" where
  "raw_string a = (case a of None \<Rightarrow> JUndefined | Some s \<Rightarrow> JStr s)"

definition raw_of_match :: "pinecone_match \<Rightarrow> raw_match" where
  "raw_of_match m =
     \<lparr>raw_metadata =
        (case metadata m of
           None \<Rightarrow> None
         | Some md \<Rightarrow>
             Some (\<lambda>key.
               if key = ''work_title'' then raw_string (md_work_title md)
               else if key = ''chapter'' then raw_string (md_chapter md)
               else if key = ''text'' then raw_string (md_text md)
               else JUndefined)),
      raw_score = match_score m\<rparr>"

definition raw_of_source :: "Source \<Rightarrow> raw_source" where
  "raw_of_source s =
     \<lparr>raw_work_title = JStr (work_title s),
      raw_chapter = (case chapter s of None \<Rightarrow> JNull | Some c \<Rightarrow> JStr c),
      raw_text = JStr (text s),
      raw_score_value = JNum (score s)\<rparr>"

text \<open>A match whose metadata holds a boolean under \<^verbatim>\<open>work_title\<close>.\<close>

definition boolean_title_match :: raw_match where
  "boolean_title_match =
     \<lparr>raw_metadata = Some ((\<lambda>key. JUndefined)(''work_title'' := JBool True)),
      raw_score = Some 0.9\<rparr>"

section \<open>Order embeddings\<close>

text \<open>
  \<open>embeds_at f ys xs\<close>: position \<open>i\<close> of \<open>ys\<close> is position \<open>f i\<close> of \<open>xs\<close>, and \<open>f\<close>
  keeps the order of positions.
\<close>

definition embeds_at :: "(nat \<Rightarrow> nat) \<Rightarrow> 'a list \<Rightarrow> 'a list \<Rightarrow> bool" where
  "embeds_at f ys xs \<longleftrightarrow>
     (\<forall>i j. i < j \<and> j < length ys \<longrightarrow> f i < f j)
     \<and> (\<forall>i < length ys. f i < length xs \<and> ys ! i = xs ! f i)"

section \<open>Properties of string literals\<close>

lemma of_char_nat_less: "(of_char c :: nat) < 256"
proof -
  have "(of_char c :: nat) mod 256 < 256" by simp
  then show ?thesis by (simp only: of_char_mod_256)
qed

lemma take_bit_of_char: "take_bit 16 (of_char c :: nat) = of_char c"
proof -
  have "(256::nat) \<le> 2 ^ 16" by simp
  with of_char_nat_less [of c] have "(of_char c :: nat) < 2 ^ 16"
    by (rule less_le_trans)
  then show ?thesis by (simp only: take_bit_nat_eq_self_iff)
qed

lemma of_char_code_unit_eq_iff: "(of_char c :: code_unit) = of_char d \<longleftrightarrow> c = d"
proof -
  have "(of_char c :: code_unit) = of_nat (of_char c)"
    and "(of_char d :: code_unit) = of_nat (of_char d)"
    by (simp_all add: of_nat_of_char)
  then show ?thesis
    by (simp add: word_of_nat_eq_iff take_bit_of_char)
qed

lemma js_eq_iff: "js a = js b \<longleftrightarrow> a = b"
  by (simp add: js_def inj_map_eq_map inj_def of_char_code_unit_eq_iff)

lemma js_append: "js a @ js b = js (a @ b)"
  by (simp add: js_def)

lemma js_Nil_iff: "js a = [] \<longleftrightarrow> a = []"
  by (simp add: js_def)

section \<open>Properties of the relevance filter\<close>

lemma relevance_filter_length_le_3: "length (relevance_filter xs) \<le> 3"
  by (simp add: relevance_filter_def)

lemma relevance_filter_length_le_input: "length (relevance_filter xs) \<le> length xs"
proof -
  have "length (relevance_filter xs) \<le> length (filter (\<lambda>s. score s > 0.7) xs)"
    by (simp add: relevance_filter_def)
  also have "\<dots> \<le> length xs"
    by (rule length_filter_le)
  finally show ?thesis .
qed

lemma relevance_filter_member:
  assumes "s \<in> set (relevance_filter xs)"
  shows "s \<in> set xs" and "score s > 0.7"
proof -
  from assms have "s \<in> set (filter (\<lambda>s. score s > 0.7) xs)"
    unfolding relevance_filter_def by (rule in_set_takeD)
  then show "s \<in> set xs" and "score s > 0.7"
    by simp_all
qed

lemma relevance_filter_scenario_A:
  assumes "map score xs = [0.9, 0.82, 0.75, 0.71, 0.6, 0.4]"
  shows "relevance_filter xs = take 3 xs"
proof -
  from assms obtain a b c d e f where xs: "xs = [a, b, c, d, e, f]"
    and sc: "score a = 0.9" "score b = 0.82" "score c = 0.75"
            "score d = 0.71" "score e = 0.6" "score f = 0.4"
    by (auto simp: map_eq_Cons_conv)
  show ?thesis
    by (simp add: xs sc relevance_filter_def)
qed

text \<open>
  C1. Applied to any list of search results, the filter returns at most 3 results and at
  most as many as it was given; every result it returns has a score strictly greater than
  0.7, so a result scored exactly 0.7 is never returned; and on six results scored
  0.9, 0.82, 0.75, 0.71, 0.6, 0.4 it returns exactly the first three, scored
  0.9, 0.82, 0.75.
\<close>

theorem relevance_filter_contract:
  "length (relevance_filter xs) \<le> 3
   \<and> length (relevance_filter xs) \<le> length xs
   \<and> (\<forall>s \<in> set (relevance_filter xs). score s > 0.7)
   \<and> (\<forall>s. score s = 0.7 \<longrightarrow> s \<notin> set (relevance_filter xs))
   \<and> (map score xs = [0.9, 0.82, 0.75, 0.71, 0.6, 0.4] \<longrightarrow>
        relevance_filter xs = take 3 xs
        \<and> map score (relevance_filter xs) = [0.9, 0.82, 0.75])"
proof -
  have excl: "\<forall>s. score s = 0.7 \<longrightarrow> s \<notin> set (relevance_filter xs)"
  proof (intro allI impI notI)
    fix s assume "score s = 0.7" and "s \<in> set (relevance_filter xs)"
    then show False using relevance_filter_member(2) [of s xs] by simp
  qed
  have scen: "map score xs = [0.9, 0.82, 0.75, 0.71, 0.6, 0.4] \<longrightarrow>
      relevance_filter xs = take 3 xs \<and> map score (relevance_filter xs) = [0.9, 0.82, 0.75]"
  proof
    assume h: "map score xs = [0.9, 0.82, 0.75, 0.71, 0.6, 0.4]"
    have eq: "relevance_filter xs = take 3 xs"
      by (rule relevance_filter_scenario_A [OF h])
    have "map score (take 3 xs) = take 3 (map score xs)"
      by (simp add: take_map)
    with h eq show "relevance_filter xs = take 3 xs
        \<and> map score (relevance_filter xs) = [0.9, 0.82, 0.75]"
      by simp
  qed
  show ?thesis
    using relevance_filter_length_le_3 [of xs] relevance_filter_length_le_input [of xs]
      relevance_filter_member(2) [of _ xs] excl scen
    by blast
qed

theorem relevance_filter_contract_witness:
  "map score scenario_A_results = [0.9, 0.82, 0.75, 0.71, 0.6, 0.4]
   \<and> relevance_filter scenario_A_results = take 3 scenario_A_results
   \<and> map score (relevance_filter scenario_A_results) = [0.9, 0.82, 0.75]
   \<and> score (scenario_A_results ! 0) > 0.7
   \<and> \<lparr>work_title = js ''Aion'', chapter = None, text = js ''g'', score = 0.7\<rparr>
        \<notin> set (relevance_filter scenario_A_results)"
proof -
  let ?edge = "\<lparr>work_title = js ''Aion'', chapter = None, text = js ''g'', score = 0.7\<rparr>"
  have h: "map score scenario_A_results = [0.9, 0.82, 0.75, 0.71, 0.6, 0.4]"
    by (simp add: scenario_A_results_def)
  note c = relevance_filter_contract [of scenario_A_results]
  from c have "map score scenario_A_results = [0.9, 0.82, 0.75, 0.71, 0.6, 0.4] \<longrightarrow>
      relevance_filter scenario_A_results = take 3 scenario_A_results
      \<and> map score (relevance_filter scenario_A_results) = [0.9, 0.82, 0.75]"
    by (elim conjE)
  with h have kept: "relevance_filter scenario_A_results = take 3 scenario_A_results
      \<and> map score (relevance_filter scenario_A_results) = [0.9, 0.82, 0.75]"
    by (rule rev_mp)
  from c have above: "\<forall>s \<in> set (relevance_filter scenario_A_results). score s > 0.7"
    by (elim conjE)
  have "scenario_A_results ! 0 \<in> set (take 3 scenario_A_results)"
    by (simp add: scenario_A_results_def)
  with kept have "scenario_A_results ! 0 \<in> set (relevance_filter scenario_A_results)"
    by simp
  with above have first: "score (scenario_A_results ! 0) > 0.7"
    by (rule bspec)
  from c have "\<forall>s. score s = 0.7 \<longrightarrow> s \<notin> set (relevance_filter scenario_A_results)"
    by (elim conjE)
  then have "score ?edge = 0.7 \<longrightarrow> ?edge \<notin> set (relevance_filter scenario_A_results)"
    by (rule spec)
  moreover have "score ?edge = 0.7"
    by simp
  ultimately have edge: "?edge \<notin> set (relevance_filter scenario_A_results)"
    by (rule mp)
  from h kept first edge show ?thesis
    by (intro conjI) (elim conjE, assumption)+
qed


lemma embeds_at_skip:
  assumes "embeds_at f ys xs"
  shows "embeds_at (\<lambda>i. Suc (f i)) ys (x # xs)"
  using assms unfolding embeds_at_def by simp

lemma embeds_at_keep:
  assumes "embeds_at f ys xs"
  shows "embeds_at (\<lambda>i. case i of 0 \<Rightarrow> 0 | Suc k \<Rightarrow> Suc (f k)) (x # ys) (x # xs)"
proof -
  let ?g = "\<lambda>i. case i of 0 \<Rightarrow> 0 | Suc k \<Rightarrow> Suc (f k)"
  have mono: "?g i < ?g j" if "i < j \<and> j < length (x # ys)" for i j
  proof -
    from that obtain k where j: "j = Suc k" and k: "k < length ys" and ik: "i < Suc k"
      by (cases j) auto
    show ?thesis
    proof (cases i)
      case 0
      then show ?thesis by (simp add: j)
    next
      case (Suc m)
      with ik k assms have "f m < f k" unfolding embeds_at_def by simp
      then show ?thesis by (simp add: j Suc)
    qed
  qed
  have pt: "?g i < length (x # xs) \<and> (x # ys) ! i = (x # xs) ! ?g i"
    if "i < length (x # ys)" for i
  proof (cases i)
    case 0
    then show ?thesis by simp
  next
    case (Suc m)
    with that assms have "f m < length xs \<and> ys ! m = xs ! f m"
      unfolding embeds_at_def by simp
    then show ?thesis by (simp add: Suc)
  qed
  show ?thesis
    unfolding embeds_at_def using mono pt by blast
qed

lemma subseq_index_map:
  assumes "subseq ys xs"
  shows "\<exists>f. embeds_at f ys xs"
  using assms
proof (induction rule: list_emb.induct)
  case (list_emb_Nil zs)
  show ?case by (simp add: embeds_at_def)
next
  case (list_emb_Cons xs ys y)
  from list_emb_Cons.IH obtain f where "embeds_at f xs ys" ..
  then have "embeds_at (\<lambda>i. Suc (f i)) xs (y # ys)" by (rule embeds_at_skip)
  then show ?case by (rule exI [of _ "\<lambda>i. Suc (f i)"])
next
  case (list_emb_Cons2 x y xs ys)
  from list_emb_Cons2.IH obtain f where "embeds_at f xs ys" ..
  then have "embeds_at (\<lambda>i. case i of 0 \<Rightarrow> 0 | Suc k \<Rightarrow> Suc (f k)) (x # xs) (x # ys)"
    by (rule embeds_at_keep)
  with list_emb_Cons2.hyps(1)
  have "embeds_at (\<lambda>i. case i of 0 \<Rightarrow> 0 | Suc k \<Rightarrow> Suc (f k)) (x # xs) (y # ys)"
    by simp
  then show ?case by (rule exI [of _ "\<lambda>i. case i of 0 \<Rightarrow> 0 | Suc k \<Rightarrow> Suc (f k)"])
qed
lemma subseq_relevance_filter: "subseq (relevance_filter xs) xs"
proof -
  have "subseq (relevance_filter xs) (filter (\<lambda>s. score s > 0.7) xs)"
    unfolding relevance_filter_def
    by (rule prefix_imp_subseq) (rule take_is_prefix)
  also have "subseq (filter (\<lambda>s. score s > 0.7) xs) xs"
    by (rule subseq_filter_left)
  finally show ?thesis .
qed

text \<open>
  C6. The filter preserves order: its output is a subsequence of its input, and any two
  results it keeps, at positions i < j of the output, stand at positions i' < j' of the
  input.
\<close>

theorem relevance_filter_order_preserving:
  "subseq (relevance_filter xs) xs
   \<and> (\<forall>i j. i < j \<and> j < length (relevance_filter xs) \<longrightarrow>
        (\<exists>i' j'. i' < j' \<and> j' < length xs
           \<and> relevance_filter xs ! i = xs ! i' \<and> relevance_filter xs ! j = xs ! j'))"
proof -
  let ?out = "relevance_filter xs"
  have sub: "subseq ?out xs" by (rule subseq_relevance_filter)
  then obtain f where f: "embeds_at f ?out xs"
    using subseq_index_map by blast
  have "\<exists>i' j'. i' < j' \<and> j' < length xs \<and> ?out ! i = xs ! i' \<and> ?out ! j = xs ! j'"
    if ij: "i < j \<and> j < length ?out" for i j
  proof -
    from ij have i: "i < length ?out" and j: "j < length ?out" by simp_all
    from f ij have 1: "f i < f j" unfolding embeds_at_def by blast
    from f i have 2: "?out ! i = xs ! f i" unfolding embeds_at_def by blast
    from f j have 3: "f j < length xs \<and> ?out ! j = xs ! f j" unfolding embeds_at_def by blast
    from 1 2 3 show ?thesis by blast
  qed
  with sub show ?thesis by blast
qed

theorem relevance_filter_order_preserving_witness:
  "(\<exists>i' j'. i' < j' \<and> j' < length scenario_A_results
           \<and> relevance_filter scenario_A_results ! 0 = scenario_A_results ! i'
           \<and> relevance_filter scenario_A_results ! 2 = scenario_A_results ! j')"
proof -
  have len: "(0::nat) < 2 \<and> 2 < length (relevance_filter scenario_A_results)"
    by (simp add: relevance_filter_def scenario_A_results_def)
  from relevance_filter_order_preserving [of scenario_A_results]
  have "\<forall>i j. i < j \<and> j < length (relevance_filter scenario_A_results) \<longrightarrow>
        (\<exists>i' j'. i' < j' \<and> j' < length scenario_A_results
           \<and> relevance_filter scenario_A_results ! i = scenario_A_results ! i'
           \<and> relevance_filter scenario_A_results ! j = scenario_A_results ! j')"
    by (rule conjunct2)
  then have "(0::nat) < 2 \<and> 2 < length (relevance_filter scenario_A_results) \<longrightarrow>
        (\<exists>i' j'. i' < j' \<and> j' < length scenario_A_results
           \<and> relevance_filter scenario_A_results ! 0 = scenario_A_results ! i'
           \<and> relevance_filter scenario_A_results ! 2 = scenario_A_results ! j')"
    by (elim allE)
  with len show ?thesis by (rule rev_mp)
qed

section \<open>Properties of the citation formatters\<close>

lemma digit_char_inj:
  assumes "a < 10" "b < 10" "digit_char a = digit_char b"
  shows "a = b"
proof -
  have cases: "\<And>d. d < 10 \<Longrightarrow> d \<in> {0, 1, 2, 3, 4, 5, 6, 7, 8, 9::nat}" by auto
  from cases [OF assms(1)] cases [OF assms(2)] assms(3) show ?thesis
    by (auto simp: digit_char_def js_def)
qed

lemma show_nat_nonempty: "show_nat n \<noteq> []"
  by (subst show_nat.simps) simp

lemma show_nat_inj: "show_nat m = show_nat n \<Longrightarrow> m = n"
proof (induction m arbitrary: n rule: show_nat.induct)
  case (1 m)
  show ?case
  proof (cases "m < 10")
    case True
    then have m: "show_nat m = [digit_char m]" by (subst show_nat.simps) simp
    show ?thesis
    proof (cases "n < 10")
      case n: True
      then have "show_nat n = [digit_char n]" by (subst show_nat.simps) simp
      with m "1.prems" have "digit_char m = digit_char n" by simp
      with True n show ?thesis by (rule digit_char_inj)
    next
      case False
      then have "show_nat n = show_nat (n div 10) @ [digit_char (n mod 10)]"
        by (subst show_nat.simps) simp
      with m "1.prems" show_nat_nonempty [of "n div 10"] show ?thesis by simp
    qed
  next
    case False
    then have m: "show_nat m = show_nat (m div 10) @ [digit_char (m mod 10)]"
      by (subst show_nat.simps) simp
    show ?thesis
    proof (cases "n < 10")
      case True
      then have "show_nat n = [digit_char n]" by (subst show_nat.simps) simp
      with m "1.prems" show_nat_nonempty [of "m div 10"] show ?thesis by simp
    next
      case n: False
      then have "show_nat n = show_nat (n div 10) @ [digit_char (n mod 10)]"
        by (subst show_nat.simps) simp
      with m "1.prems" have eq: "show_nat (m div 10) = show_nat (n div 10)"
        and d: "digit_char (m mod 10) = digit_char (n mod 10)" by simp_all
      from "1.IH" [OF False eq] have "m div 10 = n div 10" .
      moreover from d have "m mod 10 = n mod 10"
        by (intro digit_char_inj) simp_all
      ultimately show ?thesis by (metis div_mult_mod_eq)
    qed
  qed
qed

lemma prompt_entry_eq:
  "prompt_entry i s = response_entry i s @ js ''\<newline>'' @ text s"
  by (simp add: prompt_entry_def response_entry_def Let_def)

lemma response_entries_nth:
  assumes "i < length srcs"
  shows "response_entries srcs ! i = response_entry i (srcs ! i)"
  using assms by (simp add: response_entries_def nth_enumerate_eq)

lemma prompt_entries_nth:
  assumes "i < length srcs"
  shows "prompt_entries srcs ! i = prompt_entry i (srcs ! i)"
  using assms by (simp add: prompt_entries_def nth_enumerate_eq)

lemma length_prompt_entries: "length (prompt_entries srcs) = length srcs"
  by (simp add: prompt_entries_def)

lemma length_response_entries: "length (response_entries srcs) = length srcs"
  by (simp add: response_entries_def)

lemma prompt_entries_from_response_entries:
  "prompt_entries srcs =
     map (\<lambda>(line, s). line @ js ''\<newline>'' @ text s) (zip (response_entries srcs) srcs)"
proof (rule nth_equalityI)
  show "length (prompt_entries srcs) =
      length (map (\<lambda>(line, s). line @ js ''\<newline>'' @ text s) (zip (response_entries srcs) srcs))"
    by (simp add: length_prompt_entries length_response_entries)
next
  fix i assume "i < length (prompt_entries srcs)"
  then have i: "i < length srcs" by (simp add: length_prompt_entries)
  then show "prompt_entries srcs ! i =
      map (\<lambda>(line, s). line @ js ''\<newline>'' @ text s) (zip (response_entries srcs) srcs) ! i"
    by (simp add: prompt_entries_nth response_entries_nth prompt_entry_eq
        length_response_entries)
qed

text \<open>
  C2. For every non-empty list of sources, the instruction block and the citation list
  have one entry per source, in the order of the input; entry i (counted from 0) of the
  citation list is "[i+1] work_title" followed by ", chapter" when there is a chapter, and
  entry i of the instruction block is that same line followed by a line break and the text
  of source i, so both give source i the number i + 1; the instruction block is the
  citation list's lines, each with its text, joined by the delimiter; and two positions
  never get the same number.
\<close>

theorem citation_numbering_agrees:
  assumes "srcs \<noteq> []"
  shows
    "length (prompt_entries srcs) = length srcs
     \<and> length (response_entries srcs) = length srcs
     \<and> (\<forall>i < length srcs.
          response_entries srcs ! i =
            js ''['' @ show_nat (i + 1) @ js ''] '' @ work_title (srcs ! i)
            @ (if chapter_truthy (srcs ! i) then js '', '' @ chapter_string (srcs ! i) else [])
          \<and> prompt_entries srcs ! i = response_entries srcs ! i @ js ''\<newline>'' @ text (srcs ! i))
     \<and> (\<forall>i j. show_nat (i + 1) = show_nat (j + 1) \<longrightarrow> i = j)
     \<and> formatSourcesForResponse srcs = js_join (js ''\<newline>'') (response_entries srcs)
     \<and> formatSourcesForPrompt srcs =
         js_join (js ''\<newline>\<newline>---\<newline>\<newline>'')
           (map (\<lambda>(line, s). line @ js ''\<newline>'' @ text s) (zip (response_entries srcs) srcs))"
proof -
  have pointwise: "\<forall>i < length srcs.
      response_entries srcs ! i =
        js ''['' @ show_nat (i + 1) @ js ''] '' @ work_title (srcs ! i)
        @ (if chapter_truthy (srcs ! i) then js '', '' @ chapter_string (srcs ! i) else [])
      \<and> prompt_entries srcs ! i = response_entries srcs ! i @ js ''\<newline>'' @ text (srcs ! i)"
  proof (intro allI impI)
    fix i assume i: "i < length srcs"
    have r: "response_entries srcs ! i = response_entry i (srcs ! i)"
      by (rule response_entries_nth [OF i])
    have p: "prompt_entries srcs ! i = prompt_entry i (srcs ! i)"
      by (rule prompt_entries_nth [OF i])
    show "response_entries srcs ! i =
        js ''['' @ show_nat (i + 1) @ js ''] '' @ work_title (srcs ! i)
        @ (if chapter_truthy (srcs ! i) then js '', '' @ chapter_string (srcs ! i) else [])
      \<and> prompt_entries srcs ! i = response_entries srcs ! i @ js ''\<newline>'' @ text (srcs ! i)"
      unfolding r p prompt_entry_eq by (simp add: response_entry_def)
  qed
  have distinct_numbers: "\<forall>i j. show_nat (i + 1) = show_nat (j + 1) \<longrightarrow> i = j"
    using show_nat_inj by fastforce
  have resp: "formatSourcesForResponse srcs = js_join (js ''\<newline>'') (response_entries srcs)"
    by (simp add: formatSourcesForResponse_def)
  have prompt: "formatSourcesForPrompt srcs =
      js_join (js ''\<newline>\<newline>---\<newline>\<newline>'')
        (map (\<lambda>(line, s). line @ js ''\<newline>'' @ text s) (zip (response_entries srcs) srcs))"
    unfolding formatSourcesForPrompt_def
    by (simp only: prompt_entries_from_response_entries)
  from length_prompt_entries [of srcs] length_response_entries [of srcs]
    pointwise distinct_numbers resp prompt
  show ?thesis by (intro conjI)
qed

theorem citation_numbering_agrees_witness:
  "take 2 scenario_A_results \<noteq> []
   \<and> response_entries (take 2 scenario_A_results) ! 1 = js ''[2] Psychological Types''
   \<and> prompt_entries (take 2 scenario_A_results) ! 1 = js ''[2] Psychological Types\<newline>b''
   \<and> formatSourcesForResponse (take 2 scenario_A_results) =
       js ''[1] Aion, The Shadow\<newline>[2] Psychological Types''"
proof -
  let ?srcs = "take 2 scenario_A_results"
  have ne: "?srcs \<noteq> []"
    by (simp add: scenario_A_results_def)
  have i: "1 < length ?srcs"
    by (simp add: scenario_A_results_def)
  have second: "work_title (?srcs ! 1) = js ''Psychological Types''"
    "\<not> chapter_truthy (?srcs ! 1)" "text (?srcs ! 1) = js ''b''"
    by (simp_all add: scenario_A_results_def chapter_truthy_def)
  have two: "show_nat (1 + 1) = js ''2''"
    by (simp add: show_nat.simps digit_char_def js_def)
  note c = citation_numbering_agrees [OF ne]
  from c have "\<forall>i < length ?srcs.
      response_entries ?srcs ! i =
        js ''['' @ show_nat (i + 1) @ js ''] '' @ work_title (?srcs ! i)
        @ (if chapter_truthy (?srcs ! i) then js '', '' @ chapter_string (?srcs ! i) else [])
      \<and> prompt_entries ?srcs ! i = response_entries ?srcs ! i @ js ''\<newline>'' @ text (?srcs ! i)"
    by (elim conjE)
  with i have "response_entries ?srcs ! 1 =
        js ''['' @ show_nat (1 + 1) @ js ''] '' @ work_title (?srcs ! 1)
        @ (if chapter_truthy (?srcs ! 1) then js '', '' @ chapter_string (?srcs ! 1) else [])
      \<and> prompt_entries ?srcs ! 1 = response_entries ?srcs ! 1 @ js ''\<newline>'' @ text (?srcs ! 1)"
    by blast
  with second two have entries: "response_entries ?srcs ! 1 = js ''[2] Psychological Types''"
    "prompt_entries ?srcs ! 1 = js ''[2] Psychological Types\<newline>b''"
    by (simp_all add: js_def)
  from c have "formatSourcesForResponse ?srcs = js_join (js ''\<newline>'') (response_entries ?srcs)"
    by (elim conjE)
  moreover have "response_entries ?srcs = [js ''[1] Aion, The Shadow'', js ''[2] Psychological Types'']"
    by (simp add: scenario_A_results_def response_entries_def response_entry_def
        chapter_truthy_def chapter_string_def show_nat.simps digit_char_def js_def)
  ultimately have "formatSourcesForResponse ?srcs =
      js ''[1] Aion, The Shadow\<newline>[2] Psychological Types''"
    by (simp add: js_def)
  with ne entries show ?thesis by (intro conjI)
qed

section \<open>Properties of the route\<close>

lemma generateQueryEmbedding_calls:
  "fst (generateQueryEmbedding sv q) = [EmbedCall (embed_request_of q)]"
  by (simp add: generateQueryEmbedding_def)

lemma generateQueryEmbedding_not_ok:
  assumes "embed_api sv (embed_request_of q) = Inr resp" and "\<not> ok resp"
  shows "snd (generateQueryEmbedding sv q) =
           Inl (Error (js ''Embedding API error: '' @ show_nat (status resp)))"
  using assms by (simp add: generateQueryEmbedding_def)

lemma queryPinecone_embedding_failed:
  assumes "snd (generateQueryEmbedding sv q) = Inl e"
  shows "queryPinecone sv q k = ([EmbedCall (embed_request_of q)], Inl e)"
proof -
  from assms generateQueryEmbedding_calls [of sv q]
  have "generateQueryEmbedding sv q = ([EmbedCall (embed_request_of q)], Inl e)"
    by (simp add: prod_eq_iff)
  then show ?thesis by (simp add: queryPinecone_def)
qed

lemma queryPinecone_embedded:
  assumes "snd (generateQueryEmbedding sv q) = Inr v"
  shows "queryPinecone sv q (Some k) =
           ([EmbedCall (embed_request_of q), QueryCall (index_name sv) (query_request_of v k)],
            case index_query sv (index_name sv) (query_request_of v k) of
              Inl e \<Rightarrow> Inl e
            | Inr results \<Rightarrow> Inr (matched_sources results))"
proof -
  from assms generateQueryEmbedding_calls [of sv q]
  have "generateQueryEmbedding sv q = ([EmbedCall (embed_request_of q)], Inr v)"
    by (simp add: prod_eq_iff)
  then show ?thesis by (simp add: queryPinecone_def)
qed

lemma POST_try_parse_failed: "POST_try sv (Inl e) = ([], Inl e)"
  by (simp add: POST_try_def)

lemma POST_try_query_failed:
  assumes "snd (queryPinecone sv (req_query body) (Some 6)) = Inl e"
  shows "POST_try sv (Inr body) = (fst (queryPinecone sv (req_query body) (Some 6)), Inl e)"
proof -
  obtain calls r where q: "queryPinecone sv (req_query body) (Some 6) = (calls, r)"
    by (cases "queryPinecone sv (req_query body) (Some 6)")
  with assms have "r = Inl e" by simp
  with q show ?thesis by (simp add: POST_try_def)
qed

lemma POST_try_queried:
  assumes "snd (queryPinecone sv (req_query body) (Some 6)) = Inr allSources"
    and "req_messages body = Some msgs"
  shows "POST_try sv (Inr body) =
           (fst (queryPinecone sv (req_query body) (Some 6))
              @ [GenerateCall
                   (generation_request_of msgs (req_query body) (relevance_filter allSources))],
            case messages_create sv
                   (generation_request_of msgs (req_query body) (relevance_filter allSources)) of
              Inl e \<Rightarrow> Inl e
            | Inr [] \<Rightarrow> Inl TypeError
            | Inr (block # rest) \<Rightarrow>
                Inr \<lparr>message = (case block of TextBlock t \<Rightarrow> t | OtherBlock \<Rightarrow> []),
                     sources = formatSourcesForResponse (relevance_filter allSources),
                     rawSources = relevance_filter allSources\<rparr>)"
proof -
  obtain calls r where q: "queryPinecone sv (req_query body) (Some 6) = (calls, r)"
    by (cases "queryPinecone sv (req_query body) (Some 6)")
  with assms(1) have "r = Inr allSources" by simp
  with q assms(2) show ?thesis
    by (simp add: POST_try_def Let_def split: sum.splits list.splits)
qed

lemma POST_try_no_messages:
  assumes "snd (queryPinecone sv (req_query body) (Some 6)) = Inr allSources"
    and "req_messages body = None"
  shows "POST_try sv (Inr body) =
           (fst (queryPinecone sv (req_query body) (Some 6)), Inl TypeError)"
proof -
  obtain calls r where q: "queryPinecone sv (req_query body) (Some 6) = (calls, r)"
    by (cases "queryPinecone sv (req_query body) (Some 6)")
  with assms(1) have "r = Inr allSources" by simp
  with q assms(2) show ?thesis
    by (simp add: POST_try_def Let_def)
qed

lemma POST_of_exception:
  assumes "snd (POST_try sv rq) = Inl e"
  shows "snd (POST sv rq) = JsonError (js ''Failed to process request'') 500"
proof -
  obtain calls r where q: "POST_try sv rq = (calls, r)" by (cases "POST_try sv rq")
  with assms have "r = Inl e" by simp
  with q show ?thesis by (simp add: POST_def)
qed

lemma POST_calls: "fst (POST sv rq) = fst (POST_try sv rq)"
  by (cases "POST_try sv rq") (auto simp: POST_def split: sum.splits)

lemma POST_try_calls_embedding_failed:
  assumes "snd (generateQueryEmbedding sv (req_query body)) = Inl e"
  shows "POST_try sv (Inr body) = ([EmbedCall (embed_request_of (req_query body))], Inl e)"
proof -
  have q: "queryPinecone sv (req_query body) (Some 6)
      = ([EmbedCall (embed_request_of (req_query body))], Inl e)"
    by (rule queryPinecone_embedding_failed [OF assms])
  then have "snd (queryPinecone sv (req_query body) (Some 6)) = Inl e" by simp
  from POST_try_query_failed [OF this] q show ?thesis by simp
qed

lemma embed_calls_POST:
  "embed_calls (fst (POST sv (Inr body))) = [embed_request_of (req_query body)]"
proof (cases "snd (generateQueryEmbedding sv (req_query body))")
  case (Inl e)
  from POST_try_calls_embedding_failed [OF this] show ?thesis
    by (simp add: POST_calls)
next
  case (Inr v)
  note q = queryPinecone_embedded [OF Inr, of 6]
  show ?thesis
  proof (cases "snd (queryPinecone sv (req_query body) (Some 6))")
    case (Inl e)
    from POST_try_query_failed [OF this] q show ?thesis by (simp add: POST_calls)
  next
    case (Inr allSources)
    show ?thesis
    proof (cases "req_messages body")
      case None
      from POST_try_no_messages [OF Inr None] q show ?thesis by (simp add: POST_calls)
    next
      case (Some msgs)
      from POST_try_queried [OF Inr Some] q show ?thesis by (simp add: POST_calls)
    qed
  qed
qed

lemma query_calls_POST_embedded:
  assumes "snd (generateQueryEmbedding sv (req_query body)) = Inr v"
  shows "query_calls (fst (POST sv (Inr body))) = [(index_name sv, query_request_of v 6)]"
proof -
  note q = queryPinecone_embedded [OF assms, of 6]
  show ?thesis
  proof (cases "snd (queryPinecone sv (req_query body) (Some 6))")
    case (Inl e)
    from POST_try_query_failed [OF this] q show ?thesis by (simp add: POST_calls)
  next
    case (Inr allSources)
    show ?thesis
    proof (cases "req_messages body")
      case None
      from POST_try_no_messages [OF Inr None] q show ?thesis by (simp add: POST_calls)
    next
      case (Some msgs)
      from POST_try_queried [OF Inr Some] q show ?thesis by (simp add: POST_calls)
    qed
  qed
qed

lemma query_calls_POST_not_embedded:
  assumes "snd (generateQueryEmbedding sv (req_query body)) = Inl e"
  shows "query_calls (fst (POST sv (Inr body))) = []"
    and "generate_calls (fst (POST sv (Inr body))) = []"
  using POST_try_calls_embedding_failed [OF assms] by (simp_all add: POST_calls)

lemma query_calls_POST_parse_failed: "query_calls (fst (POST sv (Inl e))) = []"
  by (simp add: POST_calls POST_try_parse_failed)

lemma query_calls_POST_topK: "list_all (\<lambda>(index, r). topK r = 6) (query_calls (fst (POST sv rq)))"
proof (cases rq)
  case (Inl e)
  then show ?thesis by (simp add: query_calls_POST_parse_failed)
next
  case (Inr body)
  show ?thesis
  proof (cases "snd (generateQueryEmbedding sv (req_query body))")
    case (Inl e)
    from query_calls_POST_not_embedded(1) [OF this] \<open>rq = Inr body\<close> show ?thesis by simp
  next
    case (Inr v)
    from query_calls_POST_embedded [OF this] \<open>rq = Inr body\<close> show ?thesis
      by (simp add: query_request_of_def)
  qed
qed

lemma queryPinecone_searched:
  assumes "snd (generateQueryEmbedding sv (req_query body)) = Inr v"
    and "index_query sv (index_name sv) (query_request_of v 6) = Inr results"
  shows "queryPinecone sv (req_query body) (Some 6) =
      ([EmbedCall (embed_request_of (req_query body)),
        QueryCall (index_name sv) (query_request_of v 6)], Inr (matched_sources results))"
  using queryPinecone_embedded [OF assms(1), of 6] assms(2) by simp

lemma POST_try_searched:
  assumes "snd (generateQueryEmbedding sv (req_query body)) = Inr v"
    and "index_query sv (index_name sv) (query_request_of v 6) = Inr results"
  shows "snd (queryPinecone sv (req_query body) (Some 6)) = Inr (matched_sources results)"
    and "req_messages body = Some msgs \<Longrightarrow>
         fst (POST sv (Inr body)) =
           [EmbedCall (embed_request_of (req_query body)),
            QueryCall (index_name sv) (query_request_of v 6),
            GenerateCall
              (generation_request_of msgs (req_query body)
                 (relevance_filter (matched_sources results)))]"
    and "req_messages body = None \<Longrightarrow>
         POST sv (Inr body) =
           ([EmbedCall (embed_request_of (req_query body)),
             QueryCall (index_name sv) (query_request_of v 6)],
            JsonError (js ''Failed to process request'') 500)"
proof -
  note q = queryPinecone_searched [OF assms]
  then show s: "snd (queryPinecone sv (req_query body) (Some 6)) = Inr (matched_sources results)"
    by simp
  {
    assume m: "req_messages body = Some msgs"
    from POST_try_queried [OF s m] q
    show "fst (POST sv (Inr body)) =
           [EmbedCall (embed_request_of (req_query body)),
            QueryCall (index_name sv) (query_request_of v 6),
            GenerateCall
              (generation_request_of msgs (req_query body)
                 (relevance_filter (matched_sources results)))]"
      by (simp add: POST_calls)
  }
  {
    assume m: "req_messages body = None"
    from POST_try_no_messages [OF s m] q
    show "POST sv (Inr body) =
           ([EmbedCall (embed_request_of (req_query body)),
             QueryCall (index_name sv) (query_request_of v 6)],
            JsonError (js ''Failed to process request'') 500)"
      by (simp add: POST_def)
  }
qed

lemma generate_calls_POST_searched:
  assumes "snd (generateQueryEmbedding sv (req_query body)) = Inr v"
    and "index_query sv (index_name sv) (query_request_of v 6) = Inr results"
  shows "generate_calls (fst (POST sv (Inr body))) =
           (case req_messages body of
              None \<Rightarrow> []
            | Some msgs \<Rightarrow>
                [generation_request_of msgs (req_query body)
                   (relevance_filter (matched_sources results))])"
proof (cases "req_messages body")
  case None
  from POST_try_searched(3) [OF assms None] None show ?thesis by simp
next
  case (Some msgs)
  from POST_try_searched(2) [OF assms Some] Some show ?thesis by simp
qed

lemma generate_calls_prompt_bounded:
  "list_all (\<lambda>g. \<exists>srcs. length srcs \<le> 3 \<and> system g = systemPrompt srcs)
     (generate_calls (fst (POST sv rq)))"
proof (cases rq)
  case (Inl e)
  then show ?thesis by (simp add: POST_calls POST_try_parse_failed)
next
  case body: (Inr body)
  show ?thesis
  proof (cases "snd (generateQueryEmbedding sv (req_query body))")
    case (Inl e)
    from query_calls_POST_not_embedded(2) [OF this] body show ?thesis by simp
  next
    case v: (Inr v)
    show ?thesis
    proof (cases "index_query sv (index_name sv) (query_request_of v 6)")
      case (Inl e)
      with queryPinecone_embedded [OF v, of 6]
      have "snd (queryPinecone sv (req_query body) (Some 6)) = Inl e"
        and "fst (queryPinecone sv (req_query body) (Some 6)) =
          [EmbedCall (embed_request_of (req_query body)),
           QueryCall (index_name sv) (query_request_of v 6)]"
        by simp_all
      with POST_try_query_failed [of sv body e] body show ?thesis
        by (simp add: POST_calls)
    next
      case (Inr results)
      let ?srcs = "relevance_filter (matched_sources results)"
      have "length ?srcs \<le> 3" by (rule relevance_filter_length_le_3)
      then have "\<exists>srcs. length srcs \<le> 3 \<and> systemPrompt ?srcs = systemPrompt srcs"
        by blast
      with generate_calls_POST_searched [OF v Inr] body show ?thesis
        by (cases "req_messages body") (simp_all add: generation_request_of_def)
    qed
  qed
qed

text \<open>
  C9. For every query q, generateQueryEmbedding sends the embedding service one request
  whose only input text is "query: " followed by q; that text is not q itself and does not
  start with "passage: "; and POST sends exactly this request for the query of its body.
\<close>

theorem embedding_input_has_query_marker:
  "embed_calls (fst (generateQueryEmbedding sv q)) = [embed_request_of q]
   \<and> inputs (embed_request_of q) = [js ''query: '' @ q]
   \<and> input_type (embed_request_of q) = js ''query''
   \<and> js ''query: '' @ q \<noteq> q
   \<and> \<not> prefix (js ''passage: '') (js ''query: '' @ q)
   \<and> embed_calls (fst (POST sv (Inr body))) = [embed_request_of (req_query body)]"
proof -
  have "embed_calls (fst (generateQueryEmbedding sv q)) = [embed_request_of q]"
    by (simp add: generateQueryEmbedding_calls)
  moreover have "inputs (embed_request_of q) = [js ''query: '' @ q]"
    and "input_type (embed_request_of q) = js ''query''"
    by (simp_all add: embed_request_of_def)
  moreover have "js ''query: '' @ q \<noteq> q"
    by (simp add: js_Nil_iff)
  moreover have "\<not> prefix (js ''passage: '') (js ''query: '' @ q)"
    by (simp add: js_def)
  moreover note embed_calls_POST [of sv body]
  ultimately show ?thesis by (intro conjI)
qed

theorem embedding_input_has_query_marker_witness:
  "embed_calls (fst (POST example_services (Inr example_body))) =
     [\<lparr>embed_model = js ''multilingual-e5-large'', inputs = [js ''query: What is the shadow?''],
       input_type = js ''query'', truncate_mode = js ''END''\<rparr>]"
proof -
  from embedding_input_has_query_marker [of example_services "[]" example_body]
  have "embed_calls (fst (POST example_services (Inr example_body))) =
      [embed_request_of (req_query example_body)]"
    by (elim conjE)
  then show ?thesis
    by (simp add: embed_request_of_def example_body_def js_append)
qed

text \<open>
  C8. Every query that POST sends to the index asks for 6 matches, and every generation
  request that POST sends carries a prompt built from at most 3 sources. When the
  embedding succeeds the index is queried once, with topK = 6. When the index answers, the
  calls of the request are the embedding, that query and then the generation calls, and a
  generation call is made exactly when the body has its messages: its prompt is built from
  the filtered results, at most 3 of them.
\<close>

theorem search_requests_six_candidates:
  "list_all (\<lambda>(index, r). topK r = 6) (query_calls (fst (POST sv rq)))
   \<and> list_all (\<lambda>g. \<exists>srcs. length srcs \<le> 3 \<and> system g = systemPrompt srcs)
         (generate_calls (fst (POST sv rq)))
   \<and> (\<forall>v. snd (generateQueryEmbedding sv (req_query body)) = Inr v \<longrightarrow>
          query_calls (fst (POST sv (Inr body))) =
            [(index_name sv, \<lparr>vector = v, topK = 6, includeMetadata = True\<rparr>)])
   \<and> (\<forall>v results.
          snd (generateQueryEmbedding sv (req_query body)) = Inr v
          \<and> index_query sv (index_name sv) (query_request_of v 6) = Inr results \<longrightarrow>
          generate_calls (fst (POST sv (Inr body))) =
            (case req_messages body of
               None \<Rightarrow> []
             | Some msgs \<Rightarrow>
                 [generation_request_of msgs (req_query body)
                    (relevance_filter (matched_sources results))])
          \<and> fst (POST sv (Inr body)) =
              [EmbedCall (embed_request_of (req_query body)),
               QueryCall (index_name sv) \<lparr>vector = v, topK = 6, includeMetadata = True\<rparr>]
              @ map GenerateCall (generate_calls (fst (POST sv (Inr body))))
          \<and> length (relevance_filter (matched_sources results)) \<le> 3)"
proof -
  have six: "list_all (\<lambda>(index, r). topK r = 6) (query_calls (fst (POST sv rq)))"
    by (rule query_calls_POST_topK)
  have bounded: "list_all (\<lambda>g. \<exists>srcs. length srcs \<le> 3 \<and> system g = systemPrompt srcs)
      (generate_calls (fst (POST sv rq)))"
    by (rule generate_calls_prompt_bounded)
  have queried: "query_calls (fst (POST sv (Inr body))) =
      [(index_name sv, \<lparr>vector = v, topK = 6, includeMetadata = True\<rparr>)]"
    if "snd (generateQueryEmbedding sv (req_query body)) = Inr v" for v
    using query_calls_POST_embedded [OF that] by (simp add: query_request_of_def)
  have answered: "generate_calls (fst (POST sv (Inr body))) =
            (case req_messages body of
               None \<Rightarrow> []
             | Some msgs \<Rightarrow>
                 [generation_request_of msgs (req_query body)
                    (relevance_filter (matched_sources results))])
          \<and> fst (POST sv (Inr body)) =
              [EmbedCall (embed_request_of (req_query body)),
               QueryCall (index_name sv) \<lparr>vector = v, topK = 6, includeMetadata = True\<rparr>]
              @ map GenerateCall (generate_calls (fst (POST sv (Inr body))))
          \<and> length (relevance_filter (matched_sources results)) \<le> 3"
    if h: "snd (generateQueryEmbedding sv (req_query body)) = Inr v
      \<and> index_query sv (index_name sv) (query_request_of v 6) = Inr results" for v results
  proof -
    from h have h1: "snd (generateQueryEmbedding sv (req_query body)) = Inr v"
      and h2: "index_query sv (index_name sv) (query_request_of v 6) = Inr results"
      by simp_all
    note g = generate_calls_POST_searched [OF h1 h2]
    have calls: "fst (POST sv (Inr body)) =
        [EmbedCall (embed_request_of (req_query body)),
         QueryCall (index_name sv) \<lparr>vector = v, topK = 6, includeMetadata = True\<rparr>]
        @ map GenerateCall (generate_calls (fst (POST sv (Inr body))))"
    proof (cases "req_messages body")
      case None
      from POST_try_searched(3) [OF h1 h2 None] show ?thesis
        by (simp add: query_request_of_def)
    next
      case (Some msgs)
      from POST_try_searched(2) [OF h1 h2 Some] show ?thesis
        by (simp add: query_request_of_def)
    qed
    from g calls relevance_filter_length_le_3 [of "matched_sources results"]
    show ?thesis by (intro conjI)
  qed
  from six bounded queried answered show ?thesis by blast
qed

theorem search_requests_six_candidates_witness:
  "snd (generateQueryEmbedding example_services (req_query example_body)) = Inr [1, 0]
   \<and> query_calls (fst (POST example_services (Inr example_body))) =
       [(js ''jung-works'', \<lparr>vector = [1, 0], topK = 6, includeMetadata = True\<rparr>)]
   \<and> generate_calls (fst (POST example_services (Inr example_body))) =
       [generation_request_of [] (req_query example_body)
          (relevance_filter (matched_sources \<lparr>matches = Some example_matches\<rparr>))]
   \<and> length (relevance_filter (matched_sources \<lparr>matches = Some example_matches\<rparr>)) = 2"
proof -
  let ?results = "\<lparr>matches = Some example_matches\<rparr>"
  have e: "snd (generateQueryEmbedding example_services (req_query example_body)) = Inr [1, 0]"
    by (simp add: generateQueryEmbedding_def example_services_def)
  have n: "index_name example_services = js ''jung-works''"
    by (simp add: index_name_def example_services_def string_or_def)
  have i: "index_query example_services (index_name example_services) (query_request_of [1, 0] 6)
      = Inr ?results"
    by (simp add: example_services_def)
  have m: "req_messages example_body = Some []"
    by (simp add: example_body_def)
  have two: "length (relevance_filter (matched_sources ?results)) = 2"
    by (simp add: relevance_filter_def matched_sources_def example_matches_def
        match_to_source_def number_or_def)
  note c = search_requests_six_candidates [of example_services "Inr example_body" example_body]
  from c have "\<forall>v. snd (generateQueryEmbedding example_services (req_query example_body)) = Inr v \<longrightarrow>
          query_calls (fst (POST example_services (Inr example_body))) =
            [(index_name example_services, \<lparr>vector = v, topK = 6, includeMetadata = True\<rparr>)]"
    by (elim conjE)
  with e have queried: "query_calls (fst (POST example_services (Inr example_body))) =
      [(index_name example_services, \<lparr>vector = [1, 0], topK = 6, includeMetadata = True\<rparr>)]"
    by blast
  from c have "\<forall>v results.
          snd (generateQueryEmbedding example_services (req_query example_body)) = Inr v
          \<and> index_query example_services (index_name example_services) (query_request_of v 6)
              = Inr results \<longrightarrow>
          generate_calls (fst (POST example_services (Inr example_body))) =
            (case req_messages example_body of
               None \<Rightarrow> []
             | Some msgs \<Rightarrow>
                 [generation_request_of msgs (req_query example_body)
                    (relevance_filter (matched_sources results))])
          \<and> fst (POST example_services (Inr example_body)) =
              [EmbedCall (embed_request_of (req_query example_body)),
               QueryCall (index_name example_services)
                 \<lparr>vector = v, topK = 6, includeMetadata = True\<rparr>]
              @ map GenerateCall (generate_calls (fst (POST example_services (Inr example_body))))
          \<and> length (relevance_filter (matched_sources results)) \<le> 3"
    by (elim conjE)
  with e i have "generate_calls (fst (POST example_services (Inr example_body))) =
            (case req_messages example_body of
               None \<Rightarrow> []
             | Some msgs \<Rightarrow>
                 [generation_request_of msgs (req_query example_body)
                    (relevance_filter (matched_sources ?results))])"
    by blast
  then have generated: "generate_calls (fst (POST example_services (Inr example_body))) =
       [generation_request_of [] (req_query example_body)
          (relevance_filter (matched_sources ?results))]"
    by (simp only: m option.case)
  from e queried [unfolded n] generated two show ?thesis
    by (intro conjI)
qed

text \<open>
  C7. If the embedding service answers the request of POST with a response that is not ok,
  generateQueryEmbedding throws "Embedding API error: status", the only call of the request
  is the embedding call (there is no query of the index and no generation), and the
  response is the generic error with status 500, which carries no citations.
\<close>

theorem embedding_failure_stops_before_search:
  assumes "embed_api sv (embed_request_of (req_query body)) = Inr resp"
    and "\<not> ok resp"
  shows
    "snd (generateQueryEmbedding sv (req_query body)) =
       Inl (Error (js ''Embedding API error: '' @ show_nat (status resp)))
     \<and> POST sv (Inr body) =
         ([EmbedCall (embed_request_of (req_query body))],
          JsonError (js ''Failed to process request'') 500)
     \<and> query_calls (fst (POST sv (Inr body))) = []
     \<and> generate_calls (fst (POST sv (Inr body))) = []"
proof -
  let ?e = "Error (js ''Embedding API error: '' @ show_nat (status resp))"
  have thrown: "snd (generateQueryEmbedding sv (req_query body)) = Inl ?e"
    by (rule generateQueryEmbedding_not_ok [OF assms])
  have tried: "POST_try sv (Inr body) = ([EmbedCall (embed_request_of (req_query body))], Inl ?e)"
    by (rule POST_try_calls_embedding_failed [OF thrown])
  then have post: "POST sv (Inr body) =
      ([EmbedCall (embed_request_of (req_query body))], JsonError (js ''Failed to process request'') 500)"
    by (simp add: POST_def)
  from thrown post query_calls_POST_not_embedded [OF thrown]
  show ?thesis by (intro conjI)
qed

theorem embedding_failure_stops_before_search_witness:
  "POST embedding_down (Inr example_body) =
     ([EmbedCall (embed_request_of (js ''What is the shadow?''))],
      JsonError (js ''Failed to process request'') 500)
   \<and> snd (generateQueryEmbedding embedding_down (js ''What is the shadow?'')) =
       Inl (Error (js ''Embedding API error: 503''))"
proof -
  let ?resp = "\<lparr>ok = False, status = 503, json = Inl (ServiceError [])\<rparr>"
  have q: "req_query example_body = js ''What is the shadow?''"
    by (simp add: example_body_def)
  have 1: "embed_api embedding_down (embed_request_of (req_query example_body)) = Inr ?resp"
    by (simp add: embedding_down_def)
  have 2: "\<not> ok ?resp"
    by simp
  have 3: "show_nat 503 = js ''503''"
    by (simp add: show_nat.simps digit_char_def js_def)
  from embedding_failure_stops_before_search [OF 1 2] q 3 show ?thesis
    by (simp add: js_append)
qed

lemma embedding_fails_throws:
  assumes "embedding_fails sv body"
  shows "\<exists>e. snd (generateQueryEmbedding sv (req_query body)) = Inl e"
  using assms
  by (auto simp: embedding_fails_def generateQueryEmbedding_def split: sum.splits list.splits)

text \<open>
  C5. Whenever an external step of a request fails (the embedding call fails or answers
  with a response that is not ok or holds no embedding, the query of the index throws, or
  the generation throws), the response of POST is exactly the generic error
  "Failed to process request" with status 500; it is not a response with a message or
  sources.
\<close>

theorem external_failure_gives_generic_error:
  assumes "embedding_fails sv body \<or> search_fails sv body \<or> generation_fails sv body"
  shows "snd (POST sv (Inr body)) = JsonError (js ''Failed to process request'') 500
     \<and> (\<forall>b. snd (POST sv (Inr body)) \<noteq> JsonOk b)"
proof -
  have thrown: "\<exists>e. snd (POST_try sv (Inr body)) = Inl e"
    using assms
  proof (elim disjE)
    assume "embedding_fails sv body"
    then obtain e where "snd (generateQueryEmbedding sv (req_query body)) = Inl e"
      using embedding_fails_throws by blast
    from POST_try_calls_embedding_failed [OF this] show ?thesis by simp
  next
    assume s: "search_fails sv body"
    then obtain v where v: "snd (generateQueryEmbedding sv (req_query body)) = Inr v"
      by (cases "snd (generateQueryEmbedding sv (req_query body))")
        (simp_all add: search_fails_def)
    with s obtain e where "index_query sv (index_name sv) (query_request_of v 6) = Inl e"
      by (auto simp: search_fails_def isl_def)
    with queryPinecone_embedded [OF v, of 6]
    have "snd (queryPinecone sv (req_query body) (Some 6)) = Inl e" by simp
    from POST_try_query_failed [OF this] show ?thesis by simp
  next
    assume g: "generation_fails sv body"
    then obtain allSources
      where a: "snd (queryPinecone sv (req_query body) (Some 6)) = Inr allSources"
      by (cases "snd (queryPinecone sv (req_query body) (Some 6))")
        (simp_all add: generation_fails_def)
    with g obtain msgs where m: "req_messages body = Some msgs"
      by (cases "req_messages body") (simp_all add: generation_fails_def)
    with g a obtain e
      where "messages_create sv
          (generation_request_of msgs (req_query body) (relevance_filter allSources)) = Inl e"
      by (auto simp: generation_fails_def isl_def)
    with POST_try_queried [OF a m] show ?thesis by simp
  qed
  then obtain e where "snd (POST_try sv (Inr body)) = Inl e" ..
  then have "snd (POST sv (Inr body)) = JsonError (js ''Failed to process request'') 500"
    by (rule POST_of_exception)
  then show ?thesis by simp
qed

theorem external_failure_gives_generic_error_witness:
  "generation_fails generation_down example_body
   \<and> snd (POST generation_down (Inr example_body)) = JsonError (js ''Failed to process request'') 500"
proof -
  have g: "generation_fails generation_down example_body"
    by (simp add: generation_fails_def generation_down_def example_services_def
        example_body_def queryPinecone_def generateQueryEmbedding_def)
  then have "embedding_fails generation_down example_body
      \<or> search_fails generation_down example_body
      \<or> generation_fails generation_down example_body"
    by simp
  from external_failure_gives_generic_error [OF this] g show ?thesis
    by simp
qed

section \<open>The empty retrieval context\<close>

lemma relevance_filter_none_pass:
  assumes "\<forall>s \<in> set allSources. score s \<le> 0.7"
  shows "relevance_filter allSources = []"
proof -
  from assms have "filter (\<lambda>s. score s > 0.7) allSources = []"
    by (auto simp: filter_empty_conv)
  then show ?thesis by (simp add: relevance_filter_def)
qed

lemma systemPrompt_Nil: "systemPrompt [] = rules_text @ no_sources_text"
  by (simp add: systemPrompt_def)

lemma formatSourcesForResponse_Nil: "formatSourcesForResponse [] = []"
  by (simp add: formatSourcesForResponse_def response_entries_def)

text \<open>
  C4 as stated fails: POST reads \<^verbatim>\<open>messages.map\<close> before it calls the generation
  service, and nothing checks the body. For the body without messages, with an index that
  returns six results none of which is scored above 0.7, the filtered context is empty,
  POST makes the embedding call and the query of the index and then fails: the response
  is the generic error and no generation call is made.
\<close>

theorem missing_messages_fails_without_generation:
  "snd (queryPinecone low_scores (req_query body_without_messages) (Some 6)) =
     Inr (map match_to_source low_matches)
   \<and> length (map match_to_source low_matches) = 6
   \<and> relevance_filter (map match_to_source low_matches) = []
   \<and> POST low_scores (Inr body_without_messages) =
       ([EmbedCall (embed_request_of (js ''What is the shadow?'')),
         QueryCall (js ''jung-works'') \<lparr>vector = [1, 0], topK = 6, includeMetadata = True\<rparr>],
        JsonError (js ''Failed to process request'') 500)
   \<and> generate_calls (fst (POST low_scores (Inr body_without_messages))) = []"
proof -
  have q0: "req_query body_without_messages = js ''What is the shadow?''"
    and m: "req_messages body_without_messages = None"
    by (simp_all add: body_without_messages_def)
  have e: "snd (generateQueryEmbedding low_scores (req_query body_without_messages)) = Inr [1, 0]"
    by (simp add: generateQueryEmbedding_def low_scores_def example_services_def)
  have n: "index_name low_scores = js ''jung-works''"
    by (simp add: index_name_def low_scores_def example_services_def string_or_def)
  have i: "index_query low_scores (index_name low_scores) (query_request_of [1, 0] 6)
      = Inr \<lparr>matches = Some low_matches\<rparr>"
    by (simp add: low_scores_def)
  have s: "matched_sources \<lparr>matches = Some low_matches\<rparr> = map match_to_source low_matches"
    by (simp add: matched_sources_def)
  have six: "length (map match_to_source low_matches) = 6"
    by (simp add: low_matches_def)
  have none: "relevance_filter (map match_to_source low_matches) = []"
    by (simp add: relevance_filter_def low_matches_def match_to_source_def number_or_def)
  note post = POST_try_searched(3) [OF e i m, unfolded n q0]
  from POST_try_searched(1) [OF e i, unfolded s] six none post show ?thesis
    by (simp add: query_request_of_def)
qed

text \<open>
  C4, amended. When the index answers, none of its results is scored above 0.7 and the
  body of the request has its messages, the filtered context is empty and POST still
  calls the generation service, once, after the calls of queryPinecone; the system
  instruction of that call is the rules followed by
  "No highly relevant sources found - answer from general knowledge of Jung." and not by a
  Sources block; and when the generation returns content the response is the successful
  one, with an empty citation list (sources is the empty string, rawSources the empty
  list). A body without messages is answered with the generic error after the calls of
  queryPinecone.
\<close>

theorem no_relevant_sources_falls_back:
  assumes "snd (queryPinecone sv (req_query body) (Some 6)) = Inr allSources"
    and "\<forall>s \<in> set allSources. score s \<le> 0.7"
  shows
    "relevance_filter allSources = []
     \<and> \<not> prefix (js ''Sources:'') no_sources_text
     \<and> (\<forall>msgs. req_messages body = Some msgs \<longrightarrow>
          fst (POST sv (Inr body)) =
            fst (queryPinecone sv (req_query body) (Some 6))
              @ [GenerateCall (generation_request_of msgs (req_query body) [])]
          \<and> system (generation_request_of msgs (req_query body) []) =
              rules_text @ no_sources_text
          \<and> (\<forall>block rest.
               messages_create sv (generation_request_of msgs (req_query body) []) =
                 Inr (block # rest) \<longrightarrow>
               snd (POST sv (Inr body)) =
                 JsonOk \<lparr>message = (case block of TextBlock t \<Rightarrow> t | OtherBlock \<Rightarrow> []),
                         sources = [], rawSources = []\<rparr>))
     \<and> (req_messages body = None \<longrightarrow>
          POST sv (Inr body) =
            (fst (queryPinecone sv (req_query body) (Some 6)),
             JsonError (js ''Failed to process request'') 500))"
proof -
  have empty: "relevance_filter allSources = []"
    by (rule relevance_filter_none_pass [OF assms(2)])
  have fallback: "\<not> prefix (js ''Sources:'') no_sources_text"
    by (simp add: no_sources_text_def js_def)
  have with_messages:
    "fst (POST sv (Inr body)) =
       fst (queryPinecone sv (req_query body) (Some 6))
         @ [GenerateCall (generation_request_of msgs (req_query body) [])]
     \<and> system (generation_request_of msgs (req_query body) []) = rules_text @ no_sources_text
     \<and> (\<forall>block rest.
          messages_create sv (generation_request_of msgs (req_query body) []) =
            Inr (block # rest) \<longrightarrow>
          snd (POST sv (Inr body)) =
            JsonOk \<lparr>message = (case block of TextBlock t \<Rightarrow> t | OtherBlock \<Rightarrow> []),
                    sources = [], rawSources = []\<rparr>)"
    if m: "req_messages body = Some msgs" for msgs
  proof -
    note tried = POST_try_queried [OF assms(1) m, unfolded empty formatSourcesForResponse_Nil]
    have calls: "fst (POST sv (Inr body)) =
        fst (queryPinecone sv (req_query body) (Some 6))
          @ [GenerateCall (generation_request_of msgs (req_query body) [])]"
      by (simp add: POST_calls tried)
    have prompt: "system (generation_request_of msgs (req_query body) []) =
        rules_text @ no_sources_text"
      by (simp add: generation_request_of_def systemPrompt_Nil)
    have answered: "snd (POST sv (Inr body)) =
          JsonOk \<lparr>message = (case block of TextBlock t \<Rightarrow> t | OtherBlock \<Rightarrow> []),
                  sources = [], rawSources = []\<rparr>"
      if "messages_create sv (generation_request_of msgs (req_query body) []) =
          Inr (block # rest)" for block rest
      using that by (simp add: POST_def tried)
    from calls prompt answered show ?thesis by blast
  qed
  have without_messages: "POST sv (Inr body) =
      (fst (queryPinecone sv (req_query body) (Some 6)),
       JsonError (js ''Failed to process request'') 500)"
    if m: "req_messages body = None"
    using POST_try_no_messages [OF assms(1) m] by (simp add: POST_def)
  from empty fallback with_messages without_messages show ?thesis by blast
qed

theorem no_relevant_sources_falls_back_witness:
  "snd (queryPinecone low_scores (req_query example_body) (Some 6)) =
     Inr (map match_to_source low_matches)
   \<and> list_all (\<lambda>s. score s \<le> 0.7) (map match_to_source low_matches)
   \<and> req_messages example_body = Some []
   \<and> snd (POST low_scores (Inr example_body)) =
       JsonOk \<lparr>message = js ''The shadow is the unlived side.'', sources = [], rawSources = []\<rparr>"
proof -
  have q: "snd (queryPinecone low_scores (req_query example_body) (Some 6)) =
      Inr (map match_to_source low_matches)"
    by (simp add: queryPinecone_def generateQueryEmbedding_def low_scores_def
        example_services_def matched_sources_def)
  have low: "list_all (\<lambda>s. score s \<le> 0.7) (map match_to_source low_matches)"
    by (simp add: low_matches_def match_to_source_def number_or_def)
  then have low': "\<forall>s \<in> set (map match_to_source low_matches). score s \<le> 0.7"
    by (simp only: list_all_iff)
  have m: "req_messages example_body = Some []"
    by (simp add: example_body_def)
  have g: "messages_create low_scores (generation_request_of [] (req_query example_body) []) =
      Inr [TextBlock (js ''The shadow is the unlived side.'')]"
    by (simp add: low_scores_def example_services_def)
  from no_relevant_sources_falls_back [OF q low']
  have "\<forall>msgs. req_messages example_body = Some msgs \<longrightarrow>
          fst (POST low_scores (Inr example_body)) =
            fst (queryPinecone low_scores (req_query example_body) (Some 6))
              @ [GenerateCall (generation_request_of msgs (req_query example_body) [])]
          \<and> system (generation_request_of msgs (req_query example_body) []) =
              rules_text @ no_sources_text
          \<and> (\<forall>block rest.
               messages_create low_scores (generation_request_of msgs (req_query example_body) []) =
                 Inr (block # rest) \<longrightarrow>
               snd (POST low_scores (Inr example_body)) =
                 JsonOk \<lparr>message = (case block of TextBlock t \<Rightarrow> t | OtherBlock \<Rightarrow> []),
                         sources = [], rawSources = []\<rparr>)"
    by (elim conjE)
  with m g have "snd (POST low_scores (Inr example_body)) =
      JsonOk \<lparr>message = (case TextBlock (js ''The shadow is the unlived side.'') of
                          TextBlock t \<Rightarrow> t | OtherBlock \<Rightarrow> []),
              sources = [], rawSources = []\<rparr>"
    by blast
  with q low m show ?thesis by simp
qed

section \<open>Blank queries\<close>

lemma trim_empty_iff: "trim s = [] \<longleftrightarrow> (\<forall>c \<in> set s. is_js_whitespace c)"
proof
  assume "trim s = []"
  then have all: "\<forall>c \<in> set (dropWhile is_js_whitespace s). is_js_whitespace c"
    by (simp add: trim_def)
  have "dropWhile is_js_whitespace s = []"
  proof (rule ccontr)
    assume ne: "dropWhile is_js_whitespace s \<noteq> []"
    then have "\<not> is_js_whitespace (hd (dropWhile is_js_whitespace s))"
      by (rule hd_dropWhile)
    moreover from ne have "hd (dropWhile is_js_whitespace s) \<in> set (dropWhile is_js_whitespace s)"
      by (rule hd_in_set)
    ultimately show False using all by blast
  qed
  then show "\<forall>c \<in> set s. is_js_whitespace c"
    by simp
next
  assume "\<forall>c \<in> set s. is_js_whitespace c"
  then have d: "dropWhile is_js_whitespace s = []"
    by simp
  show "trim s = []"
    unfolding trim_def d by simp
qed

lemma is_js_whitespace_iff:
  "is_js_whitespace c \<longleftrightarrow>
     c \<in> {0x0009, 0x000A, 0x000B, 0x000C, 0x000D, 0x0020, 0x00A0, 0x1680,
          0x2000, 0x2001, 0x2002, 0x2003, 0x2004, 0x2005, 0x2006, 0x2007, 0x2008, 0x2009,
          0x200A, 0x2028, 0x2029, 0x202F, 0x205F, 0x3000, 0xFEFF}"
proof -
  have range: "(0x2000 \<le> c \<and> c \<le> 0x200A) \<longleftrightarrow>
      c \<in> {0x2000, 0x2001, 0x2002, 0x2003, 0x2004, 0x2005, 0x2006, 0x2007, 0x2008, 0x2009, 0x200A}"
  proof
    assume h: "0x2000 \<le> c \<and> c \<le> 0x200A"
    then have "0x2000 \<le> unat c" "unat c \<le> 0x200A"
      by (simp_all add: word_le_nat_alt)
    then have "unat c \<in> {0x2000, 0x2001, 0x2002, 0x2003, 0x2004, 0x2005, 0x2006, 0x2007, 0x2008, 0x2009, 0x200A}"
      by (simp only: insert_iff empty_iff) arith
    then have "of_nat (unat c) \<in> (of_nat ` {0x2000, 0x2001, 0x2002, 0x2003, 0x2004, 0x2005, 0x2006, 0x2007, 0x2008, 0x2009, 0x200A::nat} :: code_unit set)"
      by (rule imageI)
    then show "c \<in> {0x2000, 0x2001, 0x2002, 0x2003, 0x2004, 0x2005, 0x2006, 0x2007, 0x2008, 0x2009, 0x200A}"
      by simp
  next
    assume "c \<in> {0x2000, 0x2001, 0x2002, 0x2003, 0x2004, 0x2005, 0x2006, 0x2007, 0x2008, 0x2009, 0x200A}"
    then show "0x2000 \<le> c \<and> c \<le> 0x200A"
      by auto
  qed
  show ?thesis
    unfolding is_js_whitespace_def range by auto
qed

text \<open>
  C3 as stated fails on the route: POST does not look at the query before it calls
  queryPinecone. On the body whose query is two spaces, with every service answering, the
  embedding service is called with the text "query:   ", the index and the generation
  service are called, and the response is the successful one.
\<close>

theorem blank_query_reaches_embedding:
  "trim (req_query blank_body) = []
   \<and> embed_calls (fst (POST example_services (Inr blank_body))) =
       [\<lparr>embed_model = js ''multilingual-e5-large'', inputs = [js ''query:   ''],
         input_type = js ''query'', truncate_mode = js ''END''\<rparr>]
   \<and> length (query_calls (fst (POST example_services (Inr blank_body)))) = 1
   \<and> length (generate_calls (fst (POST example_services (Inr blank_body)))) = 1
   \<and> snd (POST example_services (Inr blank_body)) =
       JsonOk \<lparr>message = js ''The shadow is the unlived side.'',
               sources = js ''[1] Aion, The Shadow\<newline>[2] Unknown'',
               rawSources =
                 [\<lparr>work_title = js ''Aion'', chapter = Some (js ''The Shadow''), text = js ''a'', score = 0.9\<rparr>,
                  \<lparr>work_title = js ''Unknown'', chapter = None, text = [], score = 0.8\<rparr>]\<rparr>"
proof -
  let ?results = "\<lparr>matches = Some example_matches\<rparr>"
  let ?kept = "[\<lparr>work_title = js ''Aion'', chapter = Some (js ''The Shadow''), text = js ''a'', score = 0.9\<rparr>,
                \<lparr>work_title = js ''Unknown'', chapter = None, text = [], score = 0.8\<rparr>]"
  have t: "trim (req_query blank_body) = []"
    by (simp add: blank_body_def trim_empty_iff is_js_whitespace_def js_def)
  have e: "snd (generateQueryEmbedding example_services (req_query blank_body)) = Inr [1, 0]"
    by (simp add: generateQueryEmbedding_def example_services_def)
  have i: "index_query example_services (index_name example_services) (query_request_of [1, 0] 6)
      = Inr ?results"
    by (simp add: example_services_def)
  have m: "req_messages blank_body = Some []"
    by (simp add: blank_body_def)
  note calls = POST_try_searched(2) [OF e i m]
  note q = POST_try_searched(1) [OF e i]
  have kept: "relevance_filter (matched_sources ?results) = ?kept"
    by (simp add: relevance_filter_def matched_sources_def example_matches_def
        match_to_source_def metadata_field_def string_or_def string_or_null_def number_or_def
        js_Nil_iff)
  have cited: "formatSourcesForResponse ?kept = js ''[1] Aion, The Shadow\<newline>[2] Unknown''"
    by (simp add: formatSourcesForResponse_def response_entries_def response_entry_def
        chapter_truthy_def chapter_string_def show_nat.simps digit_char_def js_def)
  have g: "messages_create example_services
        (generation_request_of [] (req_query blank_body) ?kept)
      = Inr [TextBlock (js ''The shadow is the unlived side.'')]"
    by (simp add: example_services_def)
  have r: "snd (POST example_services (Inr blank_body)) =
      JsonOk \<lparr>message = js ''The shadow is the unlived side.'',
              sources = js ''[1] Aion, The Shadow\<newline>[2] Unknown'', rawSources = ?kept\<rparr>"
    using POST_try_queried [OF q m, unfolded kept cited] g by (simp add: POST_def)
  have q0: "req_query blank_body = js ''  ''"
    by (simp add: blank_body_def)
  have c: "embed_calls (fst (POST example_services (Inr blank_body))) =
       [\<lparr>embed_model = js ''multilingual-e5-large'', inputs = [js ''query:   ''],
         input_type = js ''query'', truncate_mode = js ''END''\<rparr>]"
    "length (query_calls (fst (POST example_services (Inr blank_body)))) = 1"
    "length (generate_calls (fst (POST example_services (Inr blank_body)))) = 1"
    by (simp_all add: calls embed_request_of_def q0 js_append)
  from t c r show ?thesis by (intro conjI)
qed

text \<open>
  C3, amended. handleExplore, through which the page submits every query, returns at once
  when the query is empty or consists only of code units that \<^verbatim>\<open>trim\<close> strips (the 25
  white space and line terminator code units of ECMAScript): it makes no call and leaves
  the state of the page as it was. Any other query submitted while nothing is loading is
  sent to POST as it is, and POST itself embeds the query of whatever body it is given.
\<close>

theorem blank_query_dropped_by_client:
  "(query = [] \<or> (\<forall>c \<in> set query. is_js_whitespace c) \<longrightarrow>
      handleExplore sv cl st query = ([], st))
   \<and> (\<not> (\<forall>c \<in> set query. is_js_whitespace c) \<and> \<not> isLoading st \<longrightarrow>
        fst (handleExplore sv cl st query) =
          fst (POST sv (Inr \<lparr>req_messages = Some [], req_query = query\<rparr>)))
   \<and> embed_calls (fst (POST sv (Inr body))) = [embed_request_of (req_query body)]
   \<and> is_js_whitespace u =
       (u \<in> {0x0009, 0x000A, 0x000B, 0x000C, 0x000D, 0x0020, 0x00A0, 0x1680,
              0x2000, 0x2001, 0x2002, 0x2003, 0x2004, 0x2005, 0x2006, 0x2007, 0x2008,
              0x2009, 0x200A, 0x2028, 0x2029, 0x202F, 0x205F, 0x3000, 0xFEFF})"
proof (intro conjI impI)
  assume "query = [] \<or> (\<forall>c \<in> set query. is_js_whitespace c)"
  then have "\<forall>c \<in> set query. is_js_whitespace c" by auto
  then have "trim query = []" by (simp add: trim_empty_iff)
  then show "handleExplore sv cl st query = ([], st)"
    by (simp add: handleExplore_def)
next
  assume "\<not> (\<forall>c \<in> set query. is_js_whitespace c) \<and> \<not> isLoading st"
  then have "trim query \<noteq> []" and "\<not> isLoading st"
    by (simp_all add: trim_empty_iff)
  then show "fst (handleExplore sv cl st query) =
      fst (POST sv (Inr \<lparr>req_messages = Some [], req_query = query\<rparr>))"
    by (cases "POST sv (Inr \<lparr>req_messages = Some [], req_query = query\<rparr>)")
      (simp add: handleExplore_def Let_def split: response.splits)
next
  show "embed_calls (fst (POST sv (Inr body))) = [embed_request_of (req_query body)]"
    by (rule embed_calls_POST)
next
  show "is_js_whitespace u =
       (u \<in> {0x0009, 0x000A, 0x000B, 0x000C, 0x000D, 0x0020, 0x00A0, 0x1680,
              0x2000, 0x2001, 0x2002, 0x2003, 0x2004, 0x2005, 0x2006, 0x2007, 0x2008,
              0x2009, 0x200A, 0x2028, 0x2029, 0x202F, 0x205F, 0x3000, 0xFEFF})"
    by (rule is_js_whitespace_iff)
qed

theorem blank_query_dropped_by_client_witness:
  "handleExplore example_services \<lparr>now = 0, extractRelatedConcepts = (\<lambda>t. [])\<rparr>
      \<lparr>explorations = [], input = js ''  '', isLoading = False, expandedId = None\<rparr>
      [0x3000, 0x2003, 0x0020, 0xFEFF]
    = ([], \<lparr>explorations = [], input = js ''  '', isLoading = False, expandedId = None\<rparr>)
   \<and> fst (handleExplore example_services \<lparr>now = 0, extractRelatedConcepts = (\<lambda>t. [])\<rparr>
        \<lparr>explorations = [], input = js ''  '', isLoading = False, expandedId = None\<rparr> (js ''a?''))
      = fst (POST example_services (Inr \<lparr>req_messages = Some [], req_query = js ''a?''\<rparr>))"
proof -
  let ?cl = "\<lparr>now = 0, extractRelatedConcepts = (\<lambda>t. [])\<rparr>"
  let ?st = "\<lparr>explorations = [], input = js ''  '', isLoading = False, expandedId = None\<rparr>"
  let ?blank = "[0x3000, 0x2003, 0x0020, 0xFEFF] :: js_string"
  have blank: "?blank = [] \<or> (\<forall>c \<in> set ?blank. is_js_whitespace c)"
    by (simp add: is_js_whitespace_def)
  with blank_query_dropped_by_client [of ?blank example_services ?cl ?st example_body]
  have dropped: "handleExplore example_services ?cl ?st ?blank = ([], ?st)"
    by blast
  have "\<not> (\<forall>c \<in> set (js ''a?''). is_js_whitespace c) \<and> \<not> isLoading ?st"
    by (simp add: is_js_whitespace_def js_def)
  with blank_query_dropped_by_client [of "js ''a?''" example_services ?cl ?st example_body]
  have sent: "fst (handleExplore example_services ?cl ?st (js ''a?''))
      = fst (POST example_services (Inr \<lparr>req_messages = Some [], req_query = js ''a?''\<rparr>))"
    by blast
  from dropped sent show ?thesis by (intro conjI)
qed

section \<open>Defaults of a search result\<close>

lemma js_or_raw_string:
  "js_or (raw_string a) (JStr d) = JStr (string_or a d)"
  by (cases a) (simp_all add: js_or_def raw_string_def string_or_def)

lemma js_or_raw_string_null:
  "js_or (raw_string a) JNull = (case string_or_null a of None \<Rightarrow> JNull | Some c \<Rightarrow> JStr c)"
  by (cases a) (simp_all add: js_or_def raw_string_def string_or_null_def)

lemma js_or_raw_number:
  "js_or (raw_number a) (JNum d) = JNum (number_or a d)"
  by (cases a) (simp_all add: js_or_def raw_number_def number_or_def)

lemma raw_field_raw_of_match:
  "raw_field (raw_of_match m) ''work_title'' = raw_string (metadata_field md_work_title m)"
  "raw_field (raw_of_match m) ''chapter'' = raw_string (metadata_field md_chapter m)"
  "raw_field (raw_of_match m) ''text'' = raw_string (metadata_field md_text m)"
  by (cases "metadata m"; simp add: raw_field_def raw_of_match_def metadata_field_def raw_string_def)+

lemma match_to_source_erased_typed:
  "match_to_source_erased (raw_of_match m) = raw_of_source (match_to_source m)"
proof -
  have "raw_score (raw_of_match m) = match_score m"
    by (simp add: raw_of_match_def)
  then show ?thesis
    by (simp add: match_to_source_erased_def raw_of_source_def match_to_source_def
        raw_field_raw_of_match js_or_raw_string js_or_raw_string_null js_or_raw_number)
qed

lemma js_or_string_or_absent:
  assumes "v = JUndefined \<or> is_string v"
  shows "is_string (js_or v (JStr d))"
    and "v = JUndefined \<or> v = JStr [] \<Longrightarrow> js_or v (JStr d) = JStr d"
    and "is_string (js_or v JNull) \<or> js_or v JNull = JNull"
    and "v = JUndefined \<or> v = JStr [] \<Longrightarrow> js_or v JNull = JNull"
  using assms by (cases v; simp add: js_or_def)+

lemma no_score_is_zero:
  assumes "match_score m = None"
  shows "score (match_to_source m) = 0"
  using assms by (simp add: match_to_source_def number_or_def)

text \<open>
  C10 as stated fails: the casts are not checked at run time. For a match whose metadata
  holds the boolean true under work_title, the work_title of the search result is that
  boolean and not a string.
\<close>

theorem boolean_title_is_not_defaulted:
  "raw_work_title (match_to_source_erased boolean_title_match) = JBool True
   \<and> \<not> is_string (raw_work_title (match_to_source_erased boolean_title_match))"
  by (simp add: match_to_source_erased_def boolean_title_match_def raw_field_def js_or_def)

text \<open>
  C10, amended. For every match the index returns, the score of the search result is a
  number, 0 when the match has none, so a match with no score never passes the relevance
  filter. When the metadata values under work_title, chapter and text are strings or
  absent, as the casts of queryPinecone assume, work_title is a string ("Unknown" when
  missing or empty), text is a string ("" when missing or empty) and chapter is a string or
  null (null when missing or empty). On such matches the wrapper computes the typed
  search result of match_to_source.
\<close>

theorem search_result_fields_defaulted:
  "is_number (raw_score_value (match_to_source_erased m))
   \<and> (raw_score m = None \<longrightarrow> raw_score_value (match_to_source_erased m) = JNum 0)
   \<and> ((\<forall>key \<in> {''work_title'', ''chapter'', ''text''}.
          raw_field m key = JUndefined \<or> is_string (raw_field m key)) \<longrightarrow>
        is_string (raw_work_title (match_to_source_erased m))
        \<and> (raw_field m ''work_title'' = JUndefined \<or> raw_field m ''work_title'' = JStr [] \<longrightarrow>
             raw_work_title (match_to_source_erased m) = JStr (js ''Unknown''))
        \<and> is_string (raw_text (match_to_source_erased m))
        \<and> (raw_field m ''text'' = JUndefined \<or> raw_field m ''text'' = JStr [] \<longrightarrow>
             raw_text (match_to_source_erased m) = JStr [])
        \<and> (is_string (raw_chapter (match_to_source_erased m))
             \<or> raw_chapter (match_to_source_erased m) = JNull)
        \<and> (raw_field m ''chapter'' = JUndefined \<or> raw_field m ''chapter'' = JStr [] \<longrightarrow>
             raw_chapter (match_to_source_erased m) = JNull))
   \<and> match_to_source_erased (raw_of_match tm) = raw_of_source (match_to_source tm)
   \<and> (match_score tm = None \<longrightarrow>
        score (match_to_source tm) = 0 \<and> match_to_source tm \<notin> set (relevance_filter xs))"
proof -
  have num: "is_number (raw_score_value (match_to_source_erased m))"
    by (simp add: match_to_source_erased_def js_or_raw_number)
  have zero: "raw_score m = None \<longrightarrow> raw_score_value (match_to_source_erased m) = JNum 0"
    by (simp add: match_to_source_erased_def raw_number_def js_or_def)
  have strings: "is_string (raw_work_title (match_to_source_erased m))
        \<and> (raw_field m ''work_title'' = JUndefined \<or> raw_field m ''work_title'' = JStr [] \<longrightarrow>
             raw_work_title (match_to_source_erased m) = JStr (js ''Unknown''))
        \<and> is_string (raw_text (match_to_source_erased m))
        \<and> (raw_field m ''text'' = JUndefined \<or> raw_field m ''text'' = JStr [] \<longrightarrow>
             raw_text (match_to_source_erased m) = JStr [])
        \<and> (is_string (raw_chapter (match_to_source_erased m))
             \<or> raw_chapter (match_to_source_erased m) = JNull)
        \<and> (raw_field m ''chapter'' = JUndefined \<or> raw_field m ''chapter'' = JStr [] \<longrightarrow>
             raw_chapter (match_to_source_erased m) = JNull)"
    if h: "\<forall>key \<in> {''work_title'', ''chapter'', ''text''}.
          raw_field m key = JUndefined \<or> is_string (raw_field m key)"
  proof -
    from h have w: "raw_field m ''work_title'' = JUndefined \<or> is_string (raw_field m ''work_title'')"
      and c: "raw_field m ''chapter'' = JUndefined \<or> is_string (raw_field m ''chapter'')"
      and t: "raw_field m ''text'' = JUndefined \<or> is_string (raw_field m ''text'')"
      by simp_all
    from js_or_string_or_absent(1,2) [OF w, of "js ''Unknown''"]
      js_or_string_or_absent(1,2) [OF t, of "[]"]
      js_or_string_or_absent(3,4) [OF c]
    show ?thesis
      by (simp add: match_to_source_erased_def)
  qed
  have typed: "match_to_source_erased (raw_of_match tm) = raw_of_source (match_to_source tm)"
    by (rule match_to_source_erased_typed)
  have unscored: "score (match_to_source tm) = 0 \<and> match_to_source tm \<notin> set (relevance_filter xs)"
    if "match_score tm = None"
  proof -
    from that have z: "score (match_to_source tm) = 0" by (rule no_score_is_zero)
    have "match_to_source tm \<notin> set (relevance_filter xs)"
    proof
      assume "match_to_source tm \<in> set (relevance_filter xs)"
      then have "score (match_to_source tm) > 0.7" by (rule relevance_filter_member(2))
      with z show False by simp
    qed
    with z show ?thesis by simp
  qed
  from num zero strings typed unscored show ?thesis by blast
qed

theorem search_result_fields_defaulted_witness:
  "match_to_source (example_matches ! 2) =
     \<lparr>work_title = js ''Unknown'', chapter = None, text = [], score = 0\<rparr>
   \<and> match_to_source (example_matches ! 2) \<notin> set (relevance_filter (map match_to_source example_matches))
   \<and> raw_work_title (match_to_source_erased (raw_of_match (example_matches ! 2))) = JStr (js ''Unknown'')"
proof -
  let ?tm = "example_matches ! 2"
  have n: "match_score ?tm = None"
    by (simp add: example_matches_def)
  have v: "match_to_source ?tm = \<lparr>work_title = js ''Unknown'', chapter = None, text = [], score = 0\<rparr>"
    by (simp add: example_matches_def match_to_source_def metadata_field_def string_or_def
        string_or_null_def number_or_def)
  have abs: "\<forall>key \<in> {''work_title'', ''chapter'', ''text''}.
      raw_field (raw_of_match ?tm) key = JUndefined \<or> is_string (raw_field (raw_of_match ?tm) key)"
    by (simp add: example_matches_def raw_field_def raw_of_match_def)
  have w: "raw_field (raw_of_match ?tm) ''work_title'' = JUndefined
      \<or> raw_field (raw_of_match ?tm) ''work_title'' = JStr []"
    by (simp add: example_matches_def raw_field_def raw_of_match_def)
  note t = search_result_fields_defaulted
    [of "raw_of_match ?tm" ?tm "map match_to_source example_matches"]
  from t n have "match_to_source ?tm \<notin> set (relevance_filter (map match_to_source example_matches))"
    by blast
  moreover from t abs w
  have "raw_work_title (match_to_source_erased (raw_of_match ?tm)) = JStr (js ''Unknown'')"
    by blast
  ultimately show ?thesis using v by simp
qed

end
